theory Spec2Isabelle
  imports Complex_Main "HOL-Library.AList"
begin

section \<open>Python values\<close>

text \<open>
  The import pipeline of \<^verbatim>\<open>controllers/import_controller.py\<close> handles raw records
  whose values come from CSV cells, spreadsheet cells, JSON documents, XML text and EDI
  elements. They are dynamically typed, so the model has one type of Python values.
  A \<^verbatim>\<open>dict\<close> is an association list in insertion order; \<^verbatim>\<open>d[k] = v\<close> is
  \<open>AList.update k v d\<close>, which replaces in place or appends at the end, as Python does.
  A \<^verbatim>\<open>float\<close> is its exact rational value, an infinity or NaN.
\<close>

datatype pyfloat = Finite rat | PosInf | NegInf | NaN

datatype pyval =
    PNone
  | PBool bool
  | PInt int
  | PFloat pyfloat
  | PStr string
  | PList "pyval list"
  | PDict "(string \<times> pyval) list"

type_synonym pydict = "(string \<times> pyval) list"

text \<open>Truth value testing, as \<^verbatim>\<open>if v:\<close> does it.\<close>

fun truthy :: "pyval \<Rightarrow> bool" where
  "truthy PNone = False"
| "truthy (PBool b) = b"
| "truthy (PInt i) = (i \<noteq> 0)"
| "truthy (PFloat f) = (f \<noteq> Finite 0)"
| "truthy (PStr s) = (s \<noteq> [])"
| "truthy (PList xs) = (xs \<noteq> [])"
| "truthy (PDict d) = (d \<noteq> [])"

text \<open>
  Exceptions. Every constructor stands for a subclass of Python's \<^verbatim>\<open>Exception\<close>;
  the argument is the message \<^verbatim>\<open>str(e)\<close> where the library supplies one.
\<close>

datatype exn =
    FileNotFoundError string
  | OSError string
  | EOFError string
  | FTPError string
  | RequestException string
  | JSONDecodeError string
  | XMLParseError string
  | IntegrityError string
  | ValueError string
  | KeyError string
  | TypeError
  | OtherException string

subsection \<open>String helpers\<close>

definition startswith :: "string \<Rightarrow> string \<Rightarrow> bool" where
  "startswith s p = (take (length p) s = p)"

definition endswith :: "string \<Rightarrow> string \<Rightarrow> bool" where
  "endswith s p = (length p \<le> length s \<and> drop (length s - length p) s = p)"

text \<open>\<^verbatim>\<open>sub in s\<close> on strings: \<open>sub\<close> occurs in \<open>s\<close> as a contiguous run.\<close>

fun str_contains :: "string \<Rightarrow> string \<Rightarrow> bool" where
  "str_contains sub [] = (sub = [])"
| "str_contains sub (c # cs) = (startswith (c # cs) sub \<or> str_contains sub cs)"

text \<open>\<^verbatim>\<open>s.split(sep)\<close> for a one-character separator: always at least one piece.\<close>

fun py_split :: "char \<Rightarrow> string \<Rightarrow> string list" where
  "py_split sep [] = [[]]"
| "py_split sep (c # cs) =
     (if c = sep then [] # py_split sep cs
      else (case py_split sep cs of
              w # ws \<Rightarrow> (c # w) # ws
            | [] \<Rightarrow> [[c]]))"

text \<open>
  The ASCII characters that \<^verbatim>\<open>str.strip()\<close> removes: tab, line feed, vertical tab,
  form feed, carriage return, the four separators 0x1C to 0x1F, and the space.
\<close>

definition is_space :: "char \<Rightarrow> bool" where
  "is_space c = (c \<in> set [CHR 0x09, CHR 0x0A, CHR 0x0B, CHR 0x0C, CHR 0x0D,
                           CHR 0x1C, CHR 0x1D, CHR 0x1E, CHR 0x1F, CHR 0x20])"

definition py_strip :: "string \<Rightarrow> string" where
  "py_strip s = rev (dropWhile is_space (rev (dropWhile is_space s)))"

definition lower_char :: "char \<Rightarrow> char" where
  "lower_char c =
     (case map_of (zip ''ABCDEFGHIJKLMNOPQRSTUVWXYZ'' ''abcdefghijklmnopqrstuvwxyz'') c of
        Some l \<Rightarrow> l
      | None \<Rightarrow> c)"

definition py_lower :: "string \<Rightarrow> string" where
  "py_lower s = map lower_char s"

subsection \<open>Operators on values with a string operand\<close>

text \<open>\<^verbatim>\<open>key in container\<close>, where \<open>key\<close> is a string.\<close>

fun py_contains :: "pyval \<Rightarrow> string \<Rightarrow> exn + bool" where
  "py_contains (PDict d) k = Inr (map_of d k \<noteq> None)"
| "py_contains (PList xs) k = Inr (PStr k \<in> set xs)"
| "py_contains (PStr s) k = Inr (str_contains k s)"
| "py_contains PNone k = Inl TypeError"
| "py_contains (PBool b) k = Inl TypeError"
| "py_contains (PInt i) k = Inl TypeError"
| "py_contains (PFloat f) k = Inl TypeError"

text \<open>\<^verbatim>\<open>container[key]\<close>, where \<open>key\<close> is a string: only a dict accepts it.\<close>

fun py_getitem :: "pyval \<Rightarrow> string \<Rightarrow> exn + pyval" where
  "py_getitem (PDict d) k = (case map_of d k of None \<Rightarrow> Inl (KeyError k) | Some v \<Rightarrow> Inr v)"
| "py_getitem PNone k = Inl TypeError"
| "py_getitem (PBool b) k = Inl TypeError"
| "py_getitem (PInt i) k = Inl TypeError"
| "py_getitem (PFloat f) k = Inl TypeError"
| "py_getitem (PStr s) k = Inl TypeError"
| "py_getitem (PList xs) k = Inl TypeError"

text \<open>\<^verbatim>\<open>for item in data\<close>: the items a value yields, or the TypeError it raises.\<close>

fun py_iter :: "pyval \<Rightarrow> exn + pyval list" where
  "py_iter (PList xs) = Inr xs"
| "py_iter (PDict d) = Inr (map (\<lambda>kv. PStr (fst kv)) d)"
| "py_iter (PStr s) = Inr (map (\<lambda>c. PStr [c]) s)"
| "py_iter PNone = Inl TypeError"
| "py_iter (PBool b) = Inl TypeError"
| "py_iter (PInt i) = Inl TypeError"
| "py_iter (PFloat f) = Inl TypeError"

section \<open>The catalog store interface\<close>

text \<open>
  \<^verbatim>\<open>_process_mapped_data\<close> calls \<^verbatim>\<open>VendorController.get_by_id\<close>,
  \<^verbatim>\<open>ProductController.get_by_vendor_sku\<close>, \<^verbatim>\<open>ProductController.update\<close> and
  \<^verbatim>\<open>ProductController.create\<close>. The pipeline is modelled over any implementation of
  these four operations on a store of type \<open>'s\<close>; each may raise. A vendor has the
  fields of \<^verbatim>\<open>models/vendor.py\<close>. Of the product that the lookup returns the source
  uses the \<^verbatim>\<open>id\<close> only; its vendor, SKU and stored fields follow section 3 of the
  specification.
\<close>

record vendor =
  vendor_id :: int
  vendor_name :: string
  vendor_description :: "string option"
  vendor_contact_info :: "string option"
  vendor_status :: string

record product_row =
  row_id :: int
  row_vendor :: int
  row_sku :: pyval
  row_fields :: pydict

record 's store_ops =
  vendor_get_by_id :: "'s \<Rightarrow> int \<Rightarrow> exn + vendor option"
  product_get_by_vendor_sku :: "'s \<Rightarrow> int \<Rightarrow> pyval \<Rightarrow> exn + product_row option"
  product_update :: "'s \<Rightarrow> int \<Rightarrow> pydict \<Rightarrow> exn + 's"
  product_create :: "'s \<Rightarrow> pydict \<Rightarrow> exn + 's"

section \<open>Field mapper and upsert coordinator\<close>

text \<open>
  The error strings of the importer, kept structured: each constructor stands for one
  f-string of the source and carries the values interpolated into it.
\<close>

datatype import_error =
    MissingRequiredField string pyval
  | ErrorProcessingItem pyval exn
  | VendorNotFound int
  | UnsupportedFileFormat string
  | FileNotFound string
  | ErrorImportingCSV exn
  | ErrorImportingExcel exn
  | InvalidJSONFormat string
  | ErrorImportingJSON exn
  | InvalidXMLFormat string
  | ErrorImportingXML exn
  | APIRequestFailed exn
  | APIResponseNotJSON
  | APIUnexpectedError exn
  | NoMatchingFiles
  | SFTPError exn
  | SFTPUnexpectedError exn
  | ErrorParsingEDI exn

type_synonym field_mapping = "(string \<times> string list) list"

definition default_mapping :: field_mapping where
  "default_mapping =
     [(''sku'', [''sku'', ''product_id'', ''item_number'', ''part_number'', ''id'']),
      (''name'', [''name'', ''product_name'', ''title'', ''description'']),
      (''description'', [''description'', ''long_description'', ''details'']),
      (''price'', [''price'', ''cost'', ''wholesale_price'', ''msrp'']),
      (''category'', [''category'', ''product_type'', ''type'']),
      (''brand'', [''brand'', ''manufacturer'']),
      (''upc'', [''upc'', ''gtin'', ''ean'', ''barcode'']),
      (''weight'', [''weight'']),
      (''dimensions'', [''dimensions'', ''size'']),
      (''status'', [''status'', ''availability'', ''is_active''])]"

text \<open>
  The inner loop over \<^verbatim>\<open>source_fields\<close>: the value of the first source field with
  \<^verbatim>\<open>source_field in item and item[source_field]\<close>, where the loop breaks.
\<close>

fun first_alias :: "pyval \<Rightarrow> string list \<Rightarrow> exn + pyval option" where
  "first_alias item [] = Inr None"
| "first_alias item (source_field # source_fields) =
     (case py_contains item source_field of
        Inl e \<Rightarrow> Inl e
      | Inr present \<Rightarrow>
          if present then
            (case py_getitem item source_field of
               Inl e \<Rightarrow> Inl e
             | Inr v \<Rightarrow> if truthy v then Inr (Some v) else first_alias item source_fields)
          else first_alias item source_fields)"

text \<open>The outer loop over \<^verbatim>\<open>mapping.items()\<close>, building \<^verbatim>\<open>product_data\<close>.\<close>

fun apply_mapping :: "field_mapping \<Rightarrow> pyval \<Rightarrow> pydict \<Rightarrow> exn + pydict" where
  "apply_mapping [] item product_data = Inr product_data"
| "apply_mapping ((target_field, source_fields) # mapping) item product_data =
     (case first_alias item source_fields of
        Inl e \<Rightarrow> Inl e
      | Inr None \<Rightarrow> apply_mapping mapping item product_data
      | Inr (Some v) \<Rightarrow> apply_mapping mapping item (AList.update target_field v product_data))"

text \<open>\<^verbatim>\<open>f not in product_data or not product_data[f]\<close>\<close>

definition missing_required :: "pydict \<Rightarrow> string \<Rightarrow> bool" where
  "missing_required product_data f =
     (case map_of product_data f of None \<Rightarrow> True | Some v \<Rightarrow> \<not> truthy v)"

text \<open>
  The vocabulary of the claims: a raw record carries a non-empty value under a source
  field, and the aliases that a mapping lists for a destination field.
\<close>

definition has_value :: "pydict \<Rightarrow> string \<Rightarrow> bool" where
  "has_value d a = (case map_of d a of None \<Rightarrow> False | Some v \<Rightarrow> truthy v)"

definition aliases_of :: "field_mapping \<Rightarrow> string \<Rightarrow> string list" where
  "aliases_of mapping target = concat (map snd (filter (\<lambda>entry. fst entry = target) mapping))"

text \<open>
  One iteration of the loop over \<^verbatim>\<open>data\<close>, on the loop state
  \<open>(imported_count, errors, store)\<close>. An exception raised inside the \<^verbatim>\<open>try\<close> is
  caught and recorded; a store operation that raises leaves the store as it was.
\<close>

definition process_item ::
  "'s store_ops \<Rightarrow> int \<Rightarrow> field_mapping \<Rightarrow> pyval \<Rightarrow>
   nat \<times> import_error list \<times> 's \<Rightarrow> nat \<times> import_error list \<times> 's" where
  "process_item ops vid mapping item st =
     (case st of (imported_count, errors, s) \<Rightarrow>
        (case apply_mapping mapping item [] of
           Inl e \<Rightarrow> (imported_count, errors @ [ErrorProcessingItem item e], s)
         | Inr product_data \<Rightarrow>
             if missing_required product_data ''sku'' then
               (imported_count, errors @ [MissingRequiredField ''sku'' item], s)
             else if missing_required product_data ''name'' then
               (imported_count, errors @ [MissingRequiredField ''name'' item], s)
             else
               (let product_data = AList.update ''vendor_id'' (PInt vid) product_data in
                case map_of product_data ''sku'' of
                  None \<Rightarrow>
                    (imported_count, errors @ [ErrorProcessingItem item (KeyError ''sku'')], s)
                | Some sku \<Rightarrow>
                    (case product_get_by_vendor_sku ops s vid sku of
                       Inl e \<Rightarrow> (imported_count, errors @ [ErrorProcessingItem item e], s)
                     | Inr (Some existing_product) \<Rightarrow>
                         (case product_update ops s (row_id existing_product) product_data of
                            Inl e \<Rightarrow> (imported_count, errors @ [ErrorProcessingItem item e], s)
                          | Inr s' \<Rightarrow> (imported_count + 1, errors, s'))
                     | Inr None \<Rightarrow>
                         (case product_create ops s product_data of
                            Inl e \<Rightarrow> (imported_count, errors @ [ErrorProcessingItem item e], s)
                          | Inr s' \<Rightarrow> (imported_count + 1, errors, s'))))))"

fun process_items ::
  "'s store_ops \<Rightarrow> int \<Rightarrow> field_mapping \<Rightarrow> pyval list \<Rightarrow>
   nat \<times> import_error list \<times> 's \<Rightarrow> nat \<times> import_error list \<times> 's" where
  "process_items ops vid mapping [] st = st"
| "process_items ops vid mapping (item # items) st =
     process_items ops vid mapping items (process_item ops vid mapping item st)"

text \<open>
  \<^verbatim>\<open>_process_mapped_data(data, vendor_id, mapping)\<close>. The vendor lookup and the start of
  the iteration are outside the \<^verbatim>\<open>try\<close>: an exception there leaves the function.
\<close>

definition process_mapped_data ::
  "'s store_ops \<Rightarrow> pyval \<Rightarrow> int \<Rightarrow> field_mapping option \<Rightarrow> 's \<Rightarrow>
   (exn + nat \<times> import_error list) \<times> 's" where
  "process_mapped_data ops data vid mapping s =
     (let mapping = (case mapping of
                       None \<Rightarrow> default_mapping
                     | Some m \<Rightarrow> if m = [] then default_mapping else m)
      in case vendor_get_by_id ops s vid of
           Inl e \<Rightarrow> (Inl e, s)
         | Inr None \<Rightarrow> (Inr (0, [VendorNotFound vid]), s)
         | Inr (Some vendor) \<Rightarrow>
             (case py_iter data of
                Inl e \<Rightarrow> (Inl e, s)
              | Inr items \<Rightarrow>
                  (case process_items ops vid mapping items (0, [], s) of
                     (imported_count, errors, s') \<Rightarrow> (Inr (imported_count, errors), s'))))"

section \<open>The catalog store, from the specification\<close>

text \<open>
  Modelled from the spec: no file of the repository defines the four store operations
  that \<^verbatim>\<open>_process_mapped_data\<close> calls, nor the table behind them. The store below
  follows sections 3 and 4.4 of the specification: a vendor-product row has an identity,
  an owning vendor and a vendor-specific SKU, and the pair (vendor, SKU) is unique.
\<close>

record catalog =
  cat_vendors :: "vendor list"
  cat_products :: "product_row list"

text \<open>
  Modelled from the spec: the identity that save generates (section 4.4), one above the
  largest identity in the table.
\<close>

definition fresh_id :: "product_row list \<Rightarrow> int" where
  "fresh_id rows = foldr (\<lambda>r m. max (row_id r) m) rows 0 + 1"

text \<open>
  Modelled from the spec: the row that a canonical record describes. The owning vendor is
  required (section 3), so a record without an integer \<^verbatim>\<open>vendor_id\<close> is refused.
\<close>

definition row_of :: "int \<Rightarrow> pydict \<Rightarrow> exn + product_row" where
  "row_of i product_data =
     (case map_of product_data ''vendor_id'' of
        Some (PInt v) \<Rightarrow>
          Inr \<lparr>row_id = i, row_vendor = v,
               row_sku = (case map_of product_data ''sku'' of Some k \<Rightarrow> k | None \<Rightarrow> PNone),
               row_fields = product_data\<rparr>
      | _ \<Rightarrow> Inl (IntegrityError ''vendor_id''))"

text \<open>Modelled from the spec: two rows with the same natural key (section 3).\<close>

definition same_key :: "product_row \<Rightarrow> product_row \<Rightarrow> bool" where
  "same_key r r' = (row_vendor r' = row_vendor r \<and> row_sku r' = row_sku r)"

text \<open>
  Modelled from the spec: \<^verbatim>\<open>VendorController.get_by_id\<close> is missing from the
  sources; section 4.4 lists it as find-by-identity.
\<close>

definition catalog_get_by_id :: "catalog \<Rightarrow> int \<Rightarrow> exn + vendor option" where
  "catalog_get_by_id c vid = Inr (find (\<lambda>v. vendor_id v = vid) (cat_vendors c))"

text \<open>
  Modelled from the spec: \<^verbatim>\<open>ProductController.get_by_vendor_sku\<close> is missing from
  the sources; section 4.4 lists it as find-by-natural-key on (vendor, SKU).
\<close>

definition catalog_get_by_vendor_sku ::
  "catalog \<Rightarrow> int \<Rightarrow> pyval \<Rightarrow> exn + product_row option" where
  "catalog_get_by_vendor_sku c vid sku =
     Inr (find (\<lambda>r. row_vendor r = vid \<and> row_sku r = sku) (cat_products c))"

text \<open>
  Modelled from the spec: \<^verbatim>\<open>ProductController.create\<close> is missing from the sources;
  section 4.4 lists it as save (insert, returns generated identity), under the invariant
  of section 3 that (vendor, vendor-SKU) is unique.
\<close>

definition catalog_create :: "catalog \<Rightarrow> pydict \<Rightarrow> exn + catalog" where
  "catalog_create c product_data =
     (case row_of (fresh_id (cat_products c)) product_data of
        Inl e \<Rightarrow> Inl e
      | Inr r \<Rightarrow>
          if list_ex (same_key r) (cat_products c)
          then Inl (IntegrityError ''vendor_id, vendor_sku'')
          else Inr (c\<lparr>cat_products := cat_products c @ [r]\<rparr>))"

text \<open>
  Modelled from the spec: \<^verbatim>\<open>ProductController.update\<close> is missing from the sources;
  section 4.4 lists it as update (by identity). A row keeps its identity and takes the
  record's values; an identity that no row has changes nothing.
\<close>

definition catalog_update :: "catalog \<Rightarrow> int \<Rightarrow> pydict \<Rightarrow> exn + catalog" where
  "catalog_update c i product_data =
     (case row_of i product_data of
        Inl e \<Rightarrow> Inl e
      | Inr r \<Rightarrow>
          if list_ex (\<lambda>r'. row_id r' = i) (cat_products c) \<and>
             list_ex (\<lambda>r'. row_id r' \<noteq> i \<and> same_key r r') (cat_products c)
          then Inl (IntegrityError ''vendor_id, vendor_sku'')
          else Inr (c\<lparr>cat_products :=
                        map (\<lambda>r'. if row_id r' = i then r else r') (cat_products c)\<rparr>))"

definition catalog_ops :: "catalog store_ops" where
  "catalog_ops =
     \<lparr>vendor_get_by_id = catalog_get_by_id,
      product_get_by_vendor_sku = catalog_get_by_vendor_sku,
      product_update = catalog_update,
      product_create = catalog_create\<rparr>"

definition vendor_row_count :: "catalog \<Rightarrow> int \<Rightarrow> nat" where
  "vendor_row_count c vid = length (filter (\<lambda>r. row_vendor r = vid) (cat_products c))"

text \<open>Identities are unique, and so are the natural keys (vendor, SKU).\<close>

definition catalog_wf :: "catalog \<Rightarrow> bool" where
  "catalog_wf c =
     (distinct (map row_id (cat_products c)) \<and>
      distinct (map (\<lambda>r. (row_vendor r, row_sku r)) (cat_products c)))"

section \<open>The bulk path\<close>

text \<open>
  \<^verbatim>\<open>bulk_insert\<close> of \<^verbatim>\<open>models/vendor_product.py\<close>: the value tuple built for each
  product, and the batches handed to \<^verbatim>\<open>executemany\<close>. The dimensions column holds
  the three values interpolated into \<^verbatim>\<open>f"{bl}x{bw}x{bh}"\<close>; the props column holds the
  dict that \<^verbatim>\<open>json.dumps\<close> serialises.
\<close>

record vendor_product_values =
  vp_vendor_id :: int
  vp_master_product_id :: pyval
  vp_vendor_sku :: pyval
  vp_vendor_price :: pyval
  vp_list_price :: pyval
  vp_map_price :: pyval
  vp_mrp_price :: pyval
  vp_quantity :: pyval
  vp_quantity_nj :: pyval
  vp_quantity_fl :: pyval
  vp_eta :: pyval
  vp_eta_nj :: pyval
  vp_eta_fl :: pyval
  vp_shipping_weight :: pyval
  vp_shipping_dimensions :: "(pyval \<times> pyval \<times> pyval) option"
  vp_props :: "pydict option"
  vp_status :: string

definition dict_get :: "pydict \<Rightarrow> string \<Rightarrow> pyval \<Rightarrow> pyval" where
  "dict_get d k dflt = (case map_of d k of Some v \<Rightarrow> v | None \<Rightarrow> dflt)"

definition bulk_columns :: "string list" where
  "bulk_columns =
     [''sku'', ''price'', ''list'', ''map'', ''mrp'', ''qty'', ''qtynj'', ''qtyfl'',
      ''eta'', ''etanj'', ''etafl'', ''wt'', ''bh'', ''bl'', ''bw'']"

definition bulk_props :: "pydict \<Rightarrow> pydict" where
  "bulk_props product = filter (\<lambda>kv. \<not> List.member bulk_columns (fst kv)) product"

definition bulk_values :: "int \<Rightarrow> pydict \<Rightarrow> vendor_product_values" where
  "bulk_values vid product =
     \<lparr>vp_vendor_id = vid,
      vp_master_product_id = PNone,
      vp_vendor_sku = dict_get product ''sku'' (PStr []),
      vp_vendor_price = dict_get product ''price'' PNone,
      vp_list_price = dict_get product ''list'' PNone,
      vp_map_price = dict_get product ''map'' PNone,
      vp_mrp_price = dict_get product ''mrp'' PNone,
      vp_quantity = dict_get product ''qty'' (PInt 0),
      vp_quantity_nj = dict_get product ''qtynj'' (PInt 0),
      vp_quantity_fl = dict_get product ''qtyfl'' (PInt 0),
      vp_eta = dict_get product ''eta'' PNone,
      vp_eta_nj = dict_get product ''etanj'' PNone,
      vp_eta_fl = dict_get product ''etafl'' PNone,
      vp_shipping_weight = dict_get product ''wt'' PNone,
      vp_shipping_dimensions =
        (if map_of product ''bh'' \<noteq> None \<and> map_of product ''bl'' \<noteq> None \<and>
            map_of product ''bw'' \<noteq> None
         then Some (dict_get product ''bl'' (PStr []), dict_get product ''bw'' (PStr []),
                    dict_get product ''bh'' (PStr []))
         else None),
      vp_props = (if bulk_props product \<noteq> [] then Some (bulk_props product) else None),
      vp_status = ''active''\<rparr>"

text \<open>\<^verbatim>\<open>products_data[i:i+batch_size] for i in range(0, len(products_data), batch_size)\<close>\<close>

function chunks :: "nat \<Rightarrow> 'a list \<Rightarrow> 'a list list" where
  "chunks n xs = (if n = 0 \<or> xs = [] then [] else take n xs # chunks n (drop n xs))"
  by pat_completeness auto
termination
  by (relation "measure (\<lambda>(n, xs). length xs)") auto

text \<open>
  The batches written and the count returned. A zero step makes \<^verbatim>\<open>range\<close> raise;
  a negative one makes it empty.
\<close>

definition bulk_insert ::
  "int \<Rightarrow> pydict list \<Rightarrow> int \<Rightarrow> exn + vendor_product_values list list \<times> nat" where
  "bulk_insert vid products_data batch_size =
     (if products_data = [] then Inr ([], 0)
      else if batch_size = 0 then Inl (ValueError ''range() arg 3 must not be zero'')
      else if batch_size < 0 then Inr ([], 0)
      else (let batches = map (map (bulk_values vid)) (chunks (nat batch_size) products_data)
            in Inr (batches, sum_list (map length batches))))"

section \<open>Exception handling\<close>

text \<open>
  \<^verbatim>\<open>try: body except ...: handler\<close>. The body returns a value or raises, next to the
  state it leaves behind; the handler answers the exception, or raises it again.
\<close>

definition try_except ::
  "(exn + 'a) \<times> 'st \<Rightarrow> (exn \<Rightarrow> exn + 'a) \<Rightarrow> (exn + 'a) \<times> 'st" where
  "try_except body handler =
     (case body of
        (Inl e, st) \<Rightarrow> (handler e, st)
      | (Inr r, st) \<Rightarrow> (Inr r, st))"

section \<open>The file readers\<close>

text \<open>
  What lies outside the program is a parameter: \<open>csv_read\<close> is \<^verbatim>\<open>open\<close> with
  \<^verbatim>\<open>list(csv.DictReader(f))\<close>, \<open>excel_read\<close> is \<^verbatim>\<open>pd.read_excel\<close> with
  \<^verbatim>\<open>to_dict('records')\<close>, \<open>json_load\<close> is \<^verbatim>\<open>open\<close> with \<^verbatim>\<open>json.load\<close>, and
  \<open>xml_parse\<close> is \<^verbatim>\<open>ET.parse(...).getroot()\<close>; each returns its result or the
  exception it raises.
\<close>

datatype xml = Element (xml_tag: string) (xml_text: "string option") (xml_children: "xml list")

record file_env =
  csv_read :: "string \<Rightarrow> exn + pydict list"
  excel_read :: "string \<Rightarrow> exn + pydict list"
  json_load :: "string \<Rightarrow> exn + pyval"
  xml_parse :: "string \<Rightarrow> exn + xml"

type_synonym import_result = "exn + nat \<times> import_error list"

definition csv_except :: "string \<Rightarrow> exn \<Rightarrow> import_result" where
  "csv_except file_path e =
     (case e of
        FileNotFoundError _ \<Rightarrow> Inr (0, [FileNotFound file_path])
      | _ \<Rightarrow> Inr (0, [ErrorImportingCSV e]))"

definition import_from_csv ::
  "file_env \<Rightarrow> 's store_ops \<Rightarrow> string \<Rightarrow> int \<Rightarrow> field_mapping option \<Rightarrow> 's \<Rightarrow>
   import_result \<times> 's" where
  "import_from_csv env ops file_path vid mapping s =
     try_except
       (case csv_read env file_path of
          Inl e \<Rightarrow> (Inl e, s)
        | Inr data \<Rightarrow> process_mapped_data ops (PList (map PDict data)) vid mapping s)
       (csv_except file_path)"

definition excel_except :: "string \<Rightarrow> exn \<Rightarrow> import_result" where
  "excel_except file_path e =
     (case e of
        FileNotFoundError _ \<Rightarrow> Inr (0, [FileNotFound file_path])
      | _ \<Rightarrow> Inr (0, [ErrorImportingExcel e]))"

definition import_from_excel ::
  "file_env \<Rightarrow> 's store_ops \<Rightarrow> string \<Rightarrow> int \<Rightarrow> field_mapping option \<Rightarrow> 's \<Rightarrow>
   import_result \<times> 's" where
  "import_from_excel env ops file_path vid mapping s =
     try_except
       (case excel_read env file_path of
          Inl e \<Rightarrow> (Inl e, s)
        | Inr data \<Rightarrow> process_mapped_data ops (PList (map PDict data)) vid mapping s)
       (excel_except file_path)"

text \<open>A top-level array, or the \<^verbatim>\<open>items\<close> or \<^verbatim>\<open>products\<close> entry of an object, or one item.\<close>

definition json_items :: "pyval \<Rightarrow> pyval" where
  "json_items data =
     (case data of
        PList xs \<Rightarrow> data
      | PDict d \<Rightarrow>
          (case map_of d ''items'' of
             Some v \<Rightarrow> v
           | None \<Rightarrow> (case map_of d ''products'' of Some v \<Rightarrow> v | None \<Rightarrow> PList [data]))
      | _ \<Rightarrow> PList [data])"

definition json_except :: "string \<Rightarrow> exn \<Rightarrow> import_result" where
  "json_except file_path e =
     (case e of
        FileNotFoundError _ \<Rightarrow> Inr (0, [FileNotFound file_path])
      | JSONDecodeError _ \<Rightarrow> Inr (0, [InvalidJSONFormat file_path])
      | _ \<Rightarrow> Inr (0, [ErrorImportingJSON e]))"

definition import_from_json ::
  "file_env \<Rightarrow> 's store_ops \<Rightarrow> string \<Rightarrow> int \<Rightarrow> field_mapping option \<Rightarrow> 's \<Rightarrow>
   import_result \<times> 's" where
  "import_from_json env ops file_path vid mapping s =
     try_except
       (case json_load env file_path of
          Inl e \<Rightarrow> (Inl e, s)
        | Inr data \<Rightarrow> process_mapped_data ops (json_items data) vid mapping s)
       (json_except file_path)"

definition xml_findall :: "xml \<Rightarrow> string \<Rightarrow> xml list" where
  "xml_findall e t = filter (\<lambda>c. xml_tag c = t) (xml_children e)"

text \<open>
  The first of the paths \<^verbatim>\<open>./product\<close>, \<^verbatim>\<open>./products/product\<close>, \<^verbatim>\<open>./items/item\<close>
  and \<^verbatim>\<open>.\<close> that finds an element.
\<close>

definition xml_product_elements :: "xml \<Rightarrow> xml list" where
  "xml_product_elements xroot =
     (if xml_findall xroot ''product'' \<noteq> [] then xml_findall xroot ''product''
      else if concat (map (\<lambda>p. xml_findall p ''product'') (xml_findall xroot ''products'')) \<noteq> []
        then concat (map (\<lambda>p. xml_findall p ''product'') (xml_findall xroot ''products''))
      else if concat (map (\<lambda>p. xml_findall p ''item'') (xml_findall xroot ''items'')) \<noteq> []
        then concat (map (\<lambda>p. xml_findall p ''item'') (xml_findall xroot ''items''))
      else [xroot])"

definition xml_item :: "xml \<Rightarrow> pydict" where
  "xml_item elem =
     foldl (\<lambda>item child.
              AList.update (xml_tag child)
                (case xml_text child of None \<Rightarrow> PNone | Some t \<Rightarrow> PStr t) item)
       [] (xml_children elem)"

definition xml_except :: "string \<Rightarrow> exn \<Rightarrow> import_result" where
  "xml_except file_path e =
     (case e of
        FileNotFoundError _ \<Rightarrow> Inr (0, [FileNotFound file_path])
      | XMLParseError _ \<Rightarrow> Inr (0, [InvalidXMLFormat file_path])
      | _ \<Rightarrow> Inr (0, [ErrorImportingXML e]))"

definition import_from_xml ::
  "file_env \<Rightarrow> 's store_ops \<Rightarrow> string \<Rightarrow> int \<Rightarrow> field_mapping option \<Rightarrow> 's \<Rightarrow>
   import_result \<times> 's" where
  "import_from_xml env ops file_path vid mapping s =
     try_except
       (case xml_parse env file_path of
          Inl e \<Rightarrow> (Inl e, s)
        | Inr xroot \<Rightarrow>
            process_mapped_data ops
              (PList (map (\<lambda>elem. PDict (xml_item elem)) (xml_product_elements xroot)))
              vid mapping s)
       (xml_except file_path)"

text \<open>
  The extension that \<^verbatim>\<open>os.path.splitext\<close> returns (POSIX paths): it starts at the
  last dot of the last path component, and the leading dots of that component do not
  start an extension.
\<close>

definition splitext_ext :: "string \<Rightarrow> string" where
  "splitext_ext p =
     (let base = rev (takeWhile (\<lambda>c. c \<noteq> CHR ''/'') (rev p));
          stem = dropWhile (\<lambda>c. c = CHR ''.'') base
      in if List.member stem CHR ''.''
         then CHR ''.'' # rev (takeWhile (\<lambda>c. c \<noteq> CHR ''.'') (rev stem))
         else [])"

definition import_from_file ::
  "file_env \<Rightarrow> 's store_ops \<Rightarrow> string \<Rightarrow> int \<Rightarrow> field_mapping option \<Rightarrow> 's \<Rightarrow>
   import_result \<times> 's" where
  "import_from_file env ops file_path vid mapping s =
     (let file_ext = py_lower (splitext_ext file_path) in
      if file_ext = ''.csv'' then import_from_csv env ops file_path vid mapping s
      else if List.member [''.xlsx'', ''.xls''] file_ext
        then import_from_excel env ops file_path vid mapping s
      else if file_ext = ''.json'' then import_from_json env ops file_path vid mapping s
      else if file_ext = ''.xml'' then import_from_xml env ops file_path vid mapping s
      else (Inr (0, [UnsupportedFileFormat file_ext]), s))"

section \<open>The HTTP API reader\<close>

record api_config =
  api_url :: pyval
  api_auth_type :: string
  api_username :: string
  api_password :: string
  api_token :: string
  api_headers :: "(string \<times> string) list"
  api_params :: "(string \<times> string) list"
  api_paginated :: bool
  api_items_path :: string
  api_next_page_path :: string

record http_request =
  req_url :: pyval
  req_auth :: "(string \<times> string) option"
  req_headers :: "(string \<times> string) list"
  req_params :: "(string \<times> string) list option"

text \<open>
  \<open>http_get k request\<close> is \<^verbatim>\<open>requests.get\<close>, \<^verbatim>\<open>raise_for_status\<close> and
  \<^verbatim>\<open>response.json()\<close> of the request issued after \<open>k\<close> earlier ones: the decoded body,
  or the exception raised.
\<close>

type_synonym http_env = "nat \<Rightarrow> http_request \<Rightarrow> exn + pyval"

text \<open>
  Following a dot-separated path: \<open>Some\<close> of the value reached, \<open>None\<close> where a key is
  not in the current value, or the exception that \<^verbatim>\<open>in\<close> or the subscript raises.
\<close>

fun walk_path :: "pyval \<Rightarrow> string list \<Rightarrow> exn + pyval option" where
  "walk_path current [] = Inr (Some current)"
| "walk_path current (key # keys) =
     (case py_contains current key of
        Inl e \<Rightarrow> Inl e
      | Inr present \<Rightarrow>
          if present then
            (case py_getitem current key of
               Inl e \<Rightarrow> Inl e
             | Inr v \<Rightarrow> walk_path v keys)
          else Inr None)"

definition as_list :: "pyval \<Rightarrow> pyval list" where
  "as_list v = (case v of PList xs \<Rightarrow> xs | _ \<Rightarrow> [v])"

definition extract_items :: "pyval \<Rightarrow> string \<Rightarrow> exn + pyval list" where
  "extract_items data items_path =
     (if items_path = [] then Inr (as_list data)
      else (case walk_path data (py_split CHR ''.'' items_path) of
              Inl e \<Rightarrow> Inl e
            | Inr None \<Rightarrow> Inr []
            | Inr (Some current) \<Rightarrow> Inr (as_list current)))"

definition has_next_page :: "pyval \<Rightarrow> string \<Rightarrow> exn + bool" where
  "has_next_page data next_page_path =
     (if next_page_path = [] then Inr False
      else (let parts = py_split CHR ''.'' next_page_path in
            case walk_path data (butlast parts) of
              Inl e \<Rightarrow> Inl e
            | Inr None \<Rightarrow> Inr False
            | Inr (Some current) \<Rightarrow>
                (case py_contains current (last parts) of
                   Inl e \<Rightarrow> Inl e
                 | Inr present \<Rightarrow>
                     if present then
                       (case py_getitem current (last parts) of
                          Inl e \<Rightarrow> Inl e
                        | Inr v \<Rightarrow> Inr (v \<noteq> PNone))
                     else Inr False)))"

definition get_next_page_url :: "pyval \<Rightarrow> string \<Rightarrow> exn + pyval" where
  "get_next_page_url data next_page_path =
     (if next_page_path = [] then Inr (PStr [])
      else (case walk_path data (py_split CHR ''.'' next_page_path) of
              Inl e \<Rightarrow> Inl e
            | Inr None \<Rightarrow> Inr (PStr [])
            | Inr (Some current) \<Rightarrow> Inr current))"

text \<open>
  The \<^verbatim>\<open>while\<close> loop over the pages. Nothing bounds it, so it runs on fuel, one unit
  for each test of the loop condition: \<open>None\<close> means the fuel ran out.
\<close>

fun fetch_pages ::
  "http_env \<Rightarrow> api_config \<Rightarrow> (string \<times> string) option \<Rightarrow> (string \<times> string) list \<Rightarrow>
   nat \<Rightarrow> nat \<Rightarrow> pyval \<Rightarrow> pyval list \<Rightarrow> (exn + pyval list) option" where
  "fetch_pages http cfg auth headers 0 k data all_data = None"
| "fetch_pages http cfg auth headers (Suc fuel) k data all_data =
     (case has_next_page data (api_next_page_path cfg) of
        Inl e \<Rightarrow> Some (Inl e)
      | Inr has_next \<Rightarrow>
          if \<not> has_next then Some (Inr all_data)
          else
            (case get_next_page_url data (api_next_page_path cfg) of
               Inl e \<Rightarrow> Some (Inl e)
             | Inr next_url \<Rightarrow>
                 (case http k \<lparr>req_url = next_url, req_auth = auth,
                               req_headers = headers, req_params = None\<rparr> of
                    Inl e \<Rightarrow> Some (Inl e)
                  | Inr data' \<Rightarrow>
                      (case extract_items data' (api_items_path cfg) of
                         Inl e \<Rightarrow> Some (Inl e)
                       | Inr items \<Rightarrow>
                           fetch_pages http cfg auth headers fuel (Suc k) data'
                             (all_data @ items)))))"

definition api_except :: "exn \<Rightarrow> import_result" where
  "api_except e =
     (case e of
        RequestException _ \<Rightarrow> Inr (0, [APIRequestFailed e])
      | JSONDecodeError _ \<Rightarrow> Inr (0, [APIResponseNotJSON])
      | _ \<Rightarrow> Inr (0, [APIUnexpectedError e]))"

text \<open>The items of all pages, or the exception that ended the reading, or no fuel left.\<close>

definition api_read ::
  "http_env \<Rightarrow> nat \<Rightarrow> api_config \<Rightarrow> (exn + pyval list) option" where
  "api_read http fuel cfg =
     (let auth = (if api_auth_type cfg = ''basic''
                  then Some (api_username cfg, api_password cfg) else None);
          headers = (if api_auth_type cfg \<noteq> ''basic'' \<and> api_auth_type cfg = ''bearer''
                     then AList.update ''Authorization'' (''Bearer '' @ api_token cfg)
                            (api_headers cfg)
                     else api_headers cfg)
      in case http 0 \<lparr>req_url = api_url cfg, req_auth = auth, req_headers = headers,
                       req_params = Some (api_params cfg)\<rparr> of
           Inl e \<Rightarrow> Some (Inl e)
         | Inr data \<Rightarrow>
             (case extract_items data (api_items_path cfg) of
                Inl e \<Rightarrow> Some (Inl e)
              | Inr items \<Rightarrow>
                  if api_paginated cfg
                  then fetch_pages http cfg auth headers fuel 1 data items
                  else Some (Inr items)))"

definition import_from_api ::
  "http_env \<Rightarrow> 's store_ops \<Rightarrow> nat \<Rightarrow> api_config \<Rightarrow> int \<Rightarrow> field_mapping option \<Rightarrow> 's \<Rightarrow>
   (import_result \<times> 's) option" where
  "import_from_api http ops fuel cfg vid mapping s =
     (case api_read http fuel cfg of
        None \<Rightarrow> None
      | Some (Inl e) \<Rightarrow> Some (try_except (Inl e, s) api_except)
      | Some (Inr items) \<Rightarrow>
          Some (try_except (process_mapped_data ops (PList items) vid mapping s) api_except))"

section \<open>The SFTP reader\<close>

definition matches_pattern :: "string \<Rightarrow> string \<Rightarrow> bool" where
  "matches_pattern filename pattern =
     (if pattern = ''*'' then True
      else if startswith pattern ''*'' \<and> endswith pattern ''*''
        then str_contains (butlast (tl pattern)) filename
      else if startswith pattern ''*'' then endswith filename (tl pattern)
      else if endswith pattern ''*'' then startswith filename (butlast pattern)
      else filename = pattern)"

record sftp_config =
  sftp_host :: string
  sftp_port :: int
  sftp_username :: string
  sftp_password :: string
  sftp_directory :: string
  sftp_file_pattern :: string

text \<open>
  The server and the local file system are parameters: each operation succeeds
  (\<open>None\<close>, or a value) or raises. \<open>open_wb\<close> is \<^verbatim>\<open>open(temp_file, 'wb')\<close>, which
  creates the file; \<open>ftp_retrbinary\<close> takes the name of the remote file.
\<close>

record ftp_env =
  ftp_connect :: "string \<Rightarrow> int \<Rightarrow> exn option"
  ftp_login :: "string \<Rightarrow> string \<Rightarrow> exn option"
  ftp_cwd :: "string \<Rightarrow> exn option"
  ftp_nlst :: "exn + string list"
  ftp_retrbinary :: "string \<Rightarrow> exn option"
  open_wb :: "string \<Rightarrow> exn option"
  os_remove :: "string \<Rightarrow> exn option"

text \<open>
  The loop over the matching files, on the totals and on the state: the local files
  that exist and the store. An exception leaves the loop with the state as it is then.
\<close>

fun sftp_files ::
  "ftp_env \<Rightarrow> file_env \<Rightarrow> 's store_ops \<Rightarrow> int \<Rightarrow> field_mapping option \<Rightarrow> string list \<Rightarrow>
   nat \<times> import_error list \<Rightarrow> string list \<times> 's \<Rightarrow> import_result \<times> string list \<times> 's" where
  "sftp_files ftp env ops vid mapping [] totals st = (Inr totals, st)"
| "sftp_files ftp env ops vid mapping (file # files) totals st =
     (case (totals, st) of ((total_imported, all_errors), (local_files, s)) \<Rightarrow>
        (let temp_file = ''temp_'' @ file in
         case open_wb ftp temp_file of
           Some e \<Rightarrow> (Inl e, (local_files, s))
         | None \<Rightarrow>
             (let local_files = List.insert temp_file local_files in
              case ftp_retrbinary ftp file of
                Some e \<Rightarrow> (Inl e, (local_files, s))
              | None \<Rightarrow>
                  (case import_from_file env ops temp_file vid mapping s of
                     (Inl e, s') \<Rightarrow> (Inl e, (local_files, s'))
                   | (Inr (imported, errors), s') \<Rightarrow>
                       (case os_remove ftp temp_file of
                          Some e \<Rightarrow> (Inl e, (local_files, s'))
                        | None \<Rightarrow>
                            sftp_files ftp env ops vid mapping files
                              (total_imported + imported, all_errors @ errors)
                              (removeAll temp_file local_files, s'))))))"

text \<open>\<^verbatim>\<open>ftplib.all_errors\<close>: the FTP errors, \<^verbatim>\<open>OSError\<close> with its subclasses, \<^verbatim>\<open>EOFError\<close>.\<close>

definition ftplib_all_errors :: "exn \<Rightarrow> bool" where
  "ftplib_all_errors e =
     (case e of
        FTPError _ \<Rightarrow> True
      | OSError _ \<Rightarrow> True
      | FileNotFoundError _ \<Rightarrow> True
      | RequestException _ \<Rightarrow> True
      | EOFError _ \<Rightarrow> True
      | _ \<Rightarrow> False)"

definition sftp_except :: "exn \<Rightarrow> import_result" where
  "sftp_except e =
     (if ftplib_all_errors e then Inr (0, [SFTPError e]) else Inr (0, [SFTPUnexpectedError e]))"

text \<open>The body of the \<^verbatim>\<open>try\<close>: the session with the server.\<close>

definition sftp_session ::
  "ftp_env \<Rightarrow> file_env \<Rightarrow> 's store_ops \<Rightarrow> sftp_config \<Rightarrow> int \<Rightarrow> field_mapping option \<Rightarrow>
   string list \<times> 's \<Rightarrow> import_result \<times> string list \<times> 's" where
  "sftp_session ftp env ops cfg vid mapping st =
     (case ftp_connect ftp (sftp_host cfg) (sftp_port cfg) of
        Some e \<Rightarrow> (Inl e, st)
      | None \<Rightarrow>
          (case ftp_login ftp (sftp_username cfg) (sftp_password cfg) of
             Some e \<Rightarrow> (Inl e, st)
           | None \<Rightarrow>
               (case ftp_cwd ftp (sftp_directory cfg) of
                  Some e \<Rightarrow> (Inl e, st)
                | None \<Rightarrow>
                    (case ftp_nlst ftp of
                       Inl e \<Rightarrow> (Inl e, st)
                     | Inr names \<Rightarrow>
                         (let files = filter (\<lambda>f. matches_pattern f (sftp_file_pattern cfg))
                                        names
                          in if files = [] then (Inr (0, [NoMatchingFiles]), st)
                             else sftp_files ftp env ops vid mapping files (0, []) st)))))"

definition import_from_sftp ::
  "ftp_env \<Rightarrow> file_env \<Rightarrow> 's store_ops \<Rightarrow> sftp_config \<Rightarrow> int \<Rightarrow> field_mapping option \<Rightarrow>
   string list \<times> 's \<Rightarrow> import_result \<times> string list \<times> 's" where
  "import_from_sftp ftp env ops cfg vid mapping st =
     try_except (sftp_session ftp env ops cfg vid mapping st) sftp_except"

section \<open>The EDI reader\<close>

text \<open>
  One iteration of the loop over the segments of \<^verbatim>\<open>import_from_edi\<close>, on the loop
  state \<open>(products_data, current_product)\<close>. \<open>float\<close> is Python's built-in conversion of
  a string to a float, \<open>None\<close> where it raises ValueError. \<^verbatim>\<open>split\<close> never returns
  an empty list, so \<^verbatim>\<open>elements[0]\<close> is always there.
\<close>

definition edi_segment ::
  "(string \<Rightarrow> pyfloat option) \<Rightarrow> pydict list \<times> pydict \<Rightarrow> string \<Rightarrow> pydict list \<times> pydict" where
  "edi_segment float st segment =
     (case st of (products_data, current_product) \<Rightarrow>
        if py_strip segment = [] then st
        else
          (let elements = py_split CHR ''*'' segment in
           case elements of
             [] \<Rightarrow> st
           | segment_id # _ \<Rightarrow>
               if segment_id = ''LIN'' then
                 (let products_data =
                        (if current_product \<noteq> [] then products_data @ [current_product]
                         else products_data)
                  in if length elements > 3
                     then (products_data, AList.update ''sku'' (PStr (elements ! 3)) [])
                     else (products_data, []))
               else if segment_id = ''PID'' then
                 (if length elements > 5
                  then (products_data,
                        AList.update ''name'' (PStr (elements ! 5)) current_product)
                  else st)
               else if segment_id = ''CTP'' then
                 (if length elements > 3
                  then (case float (elements ! 3) of
                          Some price \<Rightarrow>
                            (products_data,
                             AList.update ''price'' (PFloat price) current_product)
                        | None \<Rightarrow> st)
                  else st)
               else st))"

text \<open>The records the EDI reader extracts from the text.\<close>

definition parse_edi :: "(string \<Rightarrow> pyfloat option) \<Rightarrow> string \<Rightarrow> pydict list" where
  "parse_edi float edi_data =
     (case foldl (edi_segment float) ([], []) (py_split CHR ''~'' edi_data) of
        (products_data, current_product) \<Rightarrow>
          if current_product \<noteq> [] then products_data @ [current_product]
          else products_data)"

definition import_from_edi ::
  "(string \<Rightarrow> pyfloat option) \<Rightarrow> 's store_ops \<Rightarrow> string \<Rightarrow> int \<Rightarrow> field_mapping option \<Rightarrow> 's \<Rightarrow>
   (exn + nat \<times> import_error list) \<times> 's" where
  "import_from_edi float ops edi_data vid mapping s =
     (case process_mapped_data ops (PList (map PDict (parse_edi float edi_data))) vid mapping s of
        (Inl e, s') \<Rightarrow> (Inr (0, [ErrorParsingEDI e]), s')
      | (Inr r, s') \<Rightarrow> (Inr r, s'))"

subsection \<open>The EDI reader as the specification describes it\<close>

text \<open>
  The specification's reading: the text is cut at \<^verbatim>\<open>~\<close> into segments and each
  segment at \<^verbatim>\<open>*\<close> into elements; the segments fall into groups, a new group
  starting at each \<^verbatim>\<open>LIN\<close>; a group yields one product, whose fields its segments
  set one after the other; the products that hold at least one field are the output,
  in order.
\<close>

definition spec_edi_segments :: "string \<Rightarrow> string list list" where
  "spec_edi_segments edi_data =
     map (py_split CHR ''*'') (filter (\<lambda>seg. py_strip seg \<noteq> []) (py_split CHR ''~'' edi_data))"

definition is_lin :: "string list \<Rightarrow> bool" where
  "is_lin elements = (case elements of [] \<Rightarrow> False | segment_id # _ \<Rightarrow> segment_id = ''LIN'')"

text \<open>The first group holds what precedes the first LIN; every later group starts with one.\<close>

fun spec_edi_groups :: "string list list \<Rightarrow> string list list list" where
  "spec_edi_groups [] = [[]]"
| "spec_edi_groups (seg # segs) =
     (case spec_edi_groups segs of
        g # gs \<Rightarrow> if is_lin seg then [] # (seg # g) # gs else (seg # g) # gs
      | [] \<Rightarrow> [[seg]])"

text \<open>
  What one segment does to the product of its group: LIN starts it, with the SKU from
  position 3 when present; PID sets the name from position 5; CTP sets the price from
  the number at position 3, and sets nothing when that is no number.
\<close>

definition spec_edi_field ::
  "(string \<Rightarrow> pyfloat option) \<Rightarrow> pydict \<Rightarrow> string list \<Rightarrow> pydict" where
  "spec_edi_field float product elements =
     (if is_lin elements then
        (if length elements > 3 then [(''sku'', PStr (elements ! 3))] else [])
      else if elements \<noteq> [] \<and> hd elements = ''PID'' \<and> length elements > 5 then
        AList.update ''name'' (PStr (elements ! 5)) product
      else if elements \<noteq> [] \<and> hd elements = ''CTP'' \<and> length elements > 3 then
        (case float (elements ! 3) of
           Some price \<Rightarrow> AList.update ''price'' (PFloat price) product
         | None \<Rightarrow> product)
      else product)"

definition spec_parse_edi :: "(string \<Rightarrow> pyfloat option) \<Rightarrow> string \<Rightarrow> pydict list" where
  "spec_parse_edi float edi_data =
     filter (\<lambda>product. product \<noteq> [])
       (map (foldl (spec_edi_field float) []) (spec_edi_groups (spec_edi_segments edi_data)))"

section \<open>Sample data\<close>

definition example_vendor :: vendor where
  "example_vendor =
     \<lparr>vendor_id = 3, vendor_name = ''Acme'', vendor_description = None,
      vendor_contact_info = None, vendor_status = ''active''\<rparr>"

definition example_catalog :: catalog where
  "example_catalog =
     \<lparr>cat_vendors = [example_vendor],
      cat_products =
        [\<lparr>row_id = 1, row_vendor = 3, row_sku = PStr ''A1'',
          row_fields = [(''sku'', PStr ''A1''), (''name'', PStr ''Anvil''),
                        (''vendor_id'', PInt 3)]\<rparr>]\<rparr>"

definition five_records :: "pyval list" where
  "five_records =
     [PDict [(''sku'', PStr ''S1''), (''name'', PStr ''One''), (''price'', PStr ''1.00'')],
      PDict [(''sku'', PStr ''S2''), (''name'', PStr ''Two''), (''price'', PStr ''2.00'')],
      PDict [(''sku'', PStr ''S3''), (''price'', PStr ''3.00'')],
      PDict [(''sku'', PStr ''S4''), (''name'', PStr ''Four''), (''price'', PStr ''4.00'')],
      PDict [(''sku'', PStr ''S5''), (''name'', PStr ''Five''), (''price'', PStr ''5.00'')]]"

definition example_csv_rows :: "pydict list" where
  "example_csv_rows =
     [[(''sku'', PStr ''C1''), (''name'', PStr ''Chisel''), (''price'', PStr ''7.50'')],
      [(''sku'', PStr ''C2''), (''name'', PStr ''Clamp''), (''price'', PStr ''3.25'')],
      [(''sku'', PStr ''C3''), (''name'', PStr ''Crowbar''), (''price'', PStr ''12.00'')]]"

definition example_file_env :: file_env where
  "example_file_env =
     \<lparr>csv_read = (\<lambda>p. if p = ''products.csv'' then Inr example_csv_rows
                       else Inl (FileNotFoundError p)),
      excel_read = (\<lambda>p. Inl (FileNotFoundError p)),
      json_load = (\<lambda>p. Inl (FileNotFoundError p)),
      xml_parse = (\<lambda>p. Inl (FileNotFoundError p))\<rparr>"

text \<open>A stand-in for Python's \<^verbatim>\<open>float\<close> on the strings of the sample EDI text.\<close>

definition example_float :: "string \<Rightarrow> pyfloat option" where
  "example_float s =
     (if s = ''9.99'' then Some (Finite (999 / 100))
      else if s = ''12'' then Some (Finite 12)
      else None)"

definition example_sftp_config :: sftp_config where
  "example_sftp_config =
     \<lparr>sftp_host = ''ftp.example.com'', sftp_port = 22, sftp_username = ''acme'',
      sftp_password = ''secret'', sftp_directory = ''/out'', sftp_file_pattern = ''*.csv''\<rparr>"

text \<open>A server that lists two files and refuses every download.\<close>

definition example_ftp_env :: ftp_env where
  "example_ftp_env =
     \<lparr>ftp_connect = (\<lambda>host port. None),
      ftp_login = (\<lambda>user password. None),
      ftp_cwd = (\<lambda>directory. None),
      ftp_nlst = Inr [''products.csv'', ''readme.txt''],
      ftp_retrbinary = (\<lambda>file. Some (FTPError ''550 Failed to open file.'')),
      open_wb = (\<lambda>path. None),
      os_remove = (\<lambda>path. None)\<rparr>"

text \<open>A store that cannot be reached, and a server that refuses the connection.\<close>

definition example_failing_ops :: "catalog store_ops" where
  "example_failing_ops =
     catalog_ops\<lparr>vendor_get_by_id := (\<lambda>c vid. Inl (OtherException ''database is locked''))\<rparr>"

definition example_failing_ftp_env :: ftp_env where
  "example_failing_ftp_env =
     example_ftp_env\<lparr>ftp_connect := (\<lambda>host port. Some (OSError ''Connection refused''))\<rparr>"

definition example_api_config :: api_config where
  "example_api_config =
     \<lparr>api_url = PStr ''https://api.example.com/products'', api_auth_type = ''bearer'',
      api_username = [], api_password = [], api_token = ''t0ken'', api_headers = [],
      api_params = [], api_paginated = True, api_items_path = ''data.items'',
      api_next_page_path = ''paging.next''\<rparr>"

section \<open>The field mapper on dict records\<close>

lemma first_alias_dict:
  "first_alias (PDict d) sfs =
     Inr (case find (has_value d) sfs of None \<Rightarrow> None | Some a \<Rightarrow> map_of d a)"
  by (induction sfs) (auto simp: has_value_def split: option.splits)

lemma apply_mapping_dict_ex: "\<exists>pd'. apply_mapping m (PDict d) pd = Inr pd'"
  by (induction m arbitrary: pd) (auto simp: first_alias_dict split: option.splits)

lemma aliases_of_Cons:
  "aliases_of ((t', sfs) # m) t = (if t' = t then sfs else []) @ aliases_of m t"
  by (simp add: aliases_of_def)

text \<open>A destination field none of whose aliases carries a value is left as it was.\<close>

lemma apply_mapping_untouched:
  "apply_mapping m (PDict d) pd = Inr pd' \<Longrightarrow> \<forall>a\<in>set (aliases_of m t). \<not> has_value d a \<Longrightarrow>
   map_of pd' t = map_of pd t"
proof (induction m arbitrary: pd)
  case Nil
  then show ?case by simp
next
  case (Cons entry m)
  obtain t' sfs where entry: "entry = (t', sfs)" by (cases entry)
  show ?case
  proof (cases "find (has_value d) sfs")
    case None
    with Cons entry show ?thesis
      by (auto simp: first_alias_dict aliases_of_Cons split: if_splits)
  next
    case (Some a)
    then have a: "a \<in> set sfs" "has_value d a"
      by (auto simp: find_Some_iff)
    with Cons.prems(2) entry have neq: "t' \<noteq> t"
      by (auto simp: aliases_of_Cons)
    from a obtain v where v: "map_of d a = Some v"
      by (auto simp: has_value_def split: option.splits)
    from Cons.prems(1) entry Some v
    have "apply_mapping m (PDict d) (AList.update t' v pd) = Inr pd'"
      by (simp add: first_alias_dict)
    moreover from Cons.prems(2) entry neq have "\<forall>a\<in>set (aliases_of m t). \<not> has_value d a"
      by (simp add: aliases_of_Cons)
    ultimately have "map_of pd' t = map_of (AList.update t' v pd) t"
      by (rule Cons.IH)
    with neq show ?thesis by (simp add: update_conv')
  qed
qed

lemma aliases_of_notin: "t \<notin> fst ` set m \<Longrightarrow> aliases_of m t = []"
  by (induction m) (auto simp: aliases_of_def)

text \<open>
  With one entry per destination field, the field takes the value under the first of
  its aliases that carries one.
\<close>

lemma apply_mapping_target:
  "distinct (map fst m) \<Longrightarrow> (t, sfs) \<in> set m \<Longrightarrow> apply_mapping m (PDict d) pd = Inr pd' \<Longrightarrow>
   map_of pd' t = (case find (has_value d) sfs of None \<Rightarrow> map_of pd t | Some a \<Rightarrow> map_of d a)"
proof (induction m arbitrary: pd)
  case Nil
  then show ?case by simp
next
  case (Cons entry m)
  obtain t' sfs' where entry: "entry = (t', sfs')" by (cases entry)
  show ?case
  proof (cases "(t, sfs) = (t', sfs')")
    case True
    with Cons.prems(1) entry have "t \<notin> fst ` set m" by auto
    then have rest: "\<And>p p'. apply_mapping m (PDict d) p = Inr p' \<Longrightarrow> map_of p' t = map_of p t"
      using apply_mapping_untouched [of m d _ _ t] by (simp add: aliases_of_notin)
    show ?thesis
    proof (cases "find (has_value d) sfs")
      case None
      with Cons.prems(3) entry True rest show ?thesis
        by (simp add: first_alias_dict)
    next
      case (Some a)
      then have "has_value d a" by (auto simp: find_Some_iff)
      then obtain v where v: "map_of d a = Some v"
        by (auto simp: has_value_def split: option.splits)
      with Cons.prems(3) entry True Some
      have "apply_mapping m (PDict d) (AList.update t v pd) = Inr pd'"
        by (simp add: first_alias_dict)
      then have "map_of pd' t = map_of (AList.update t v pd) t" by (rule rest)
      with Some v show ?thesis by (simp add: update_conv')
    qed
  next
    case False
    with Cons.prems(2) entry have mem: "(t, sfs) \<in> set m" by auto
    with Cons.prems(1) entry have neq: "t' \<noteq> t" by force
    from Cons.prems(1) have dist: "distinct (map fst m)" by simp
    show ?thesis
    proof (cases "find (has_value d) sfs'")
      case None
      with Cons.prems(3) entry have "apply_mapping m (PDict d) pd = Inr pd'"
        by (simp add: first_alias_dict)
      with Cons.IH [OF dist mem] show ?thesis by simp
    next
      case (Some a)
      then have "has_value d a" by (auto simp: find_Some_iff)
      then obtain v where v: "map_of d a = Some v"
        by (auto simp: has_value_def split: option.splits)
      with Cons.prems(3) entry Some
      have "apply_mapping m (PDict d) (AList.update t' v pd) = Inr pd'"
        by (simp add: first_alias_dict)
      from Cons.IH [OF dist mem this] neq show ?thesis
        by (simp add: update_conv' split: option.splits)
    qed
  qed
qed

lemma find_first_match:
  "\<forall>b\<in>set before. \<not> P b \<Longrightarrow> P a \<Longrightarrow> find P (before @ a # after) = Some a"
  by (induction before) auto

lemma first_alias_delete_falsy:
  "map_of d a = Some v \<Longrightarrow> \<not> truthy v \<Longrightarrow>
   first_alias (PDict (AList.delete a d)) sfs = first_alias (PDict d) sfs"
  by (induction sfs) (auto simp: delete_conv' split: option.splits)

lemma apply_mapping_delete_falsy:
  "map_of d a = Some v \<Longrightarrow> \<not> truthy v \<Longrightarrow>
   apply_mapping m (PDict (AList.delete a d)) pd = apply_mapping m (PDict d) pd"
  by (induction m arbitrary: pd)
     (auto simp: first_alias_delete_falsy split: option.splits sum.splits)

lemma process_item_missing:
  assumes "apply_mapping mapping item [] = Inr pd"
  shows "missing_required pd ''sku'' \<Longrightarrow>
           process_item ops vid mapping item (n, errs, s) =
             (n, errs @ [MissingRequiredField ''sku'' item], s)"
    and "\<not> missing_required pd ''sku'' \<Longrightarrow> map_of pd ''name'' = None \<Longrightarrow>
           process_item ops vid mapping item (n, errs, s) =
             (n, errs @ [MissingRequiredField ''name'' item], s)"
  using assms by (simp_all add: process_item_def missing_required_def)

section \<open>Claims about the field mapper and the required fields\<close>

text \<open>
  Claim C10. When the vendor lookup finds no vendor for \<open>vendor_id\<close>, the per-record
  pipeline returns zero and the single vendor-not-found error, whatever the batch, and
  the store is the one it started from: no record is processed.
\<close>

theorem vendor_not_found_aborts_batch:
  assumes "vendor_get_by_id ops s vid = Inr None"
  shows "process_mapped_data ops data vid mapping s = (Inr (0, [VendorNotFound vid]), s)"
  using assms by (simp add: process_mapped_data_def)

theorem vendor_not_found_aborts_batch_witness:
  "process_mapped_data catalog_ops
     (PList [PDict [(''sku'', PStr ''A1''), (''name'', PStr ''Widget'')]]) 7 None
     \<lparr>cat_vendors = [\<lparr>vendor_id = 3, vendor_name = ''Acme'', vendor_description = None,
                       vendor_contact_info = None, vendor_status = ''active''\<rparr>],
      cat_products = []\<rparr>
   = (Inr (0, [VendorNotFound 7]),
      \<lparr>cat_vendors = [\<lparr>vendor_id = 3, vendor_name = ''Acme'', vendor_description = None,
                        vendor_contact_info = None, vendor_status = ''active''\<rparr>],
       cat_products = []\<rparr>)"
proof -
  have h: "vendor_get_by_id catalog_ops
             \<lparr>cat_vendors = [\<lparr>vendor_id = 3, vendor_name = ''Acme'', vendor_description = None,
                               vendor_contact_info = None, vendor_status = ''active''\<rparr>],
              cat_products = []\<rparr> 7 = Inr None"
    by (simp add: catalog_ops_def catalog_get_by_id_def)
  show ?thesis by (rule vendor_not_found_aborts_batch [OF h])
qed

text \<open>
  Claim C2. A raw record in which no alias of \<open>sku\<close> carries a non-empty value, or no
  alias of \<open>name\<close> does, is rejected: the loop appends one missing-field error that
  echoes the record, leaves the count and the store as they were, and goes on with the
  rest of the batch.
\<close>

theorem missing_required_field_rejected:
  assumes "(\<forall>a\<in>set (aliases_of mapping ''sku''). \<not> has_value d a) \<or>
           (\<forall>a\<in>set (aliases_of mapping ''name''). \<not> has_value d a)"
  shows "\<exists>f. (f = ''sku'' \<or> f = ''name'') \<and>
           process_item ops vid mapping (PDict d) (n, errs, s) =
             (n, errs @ [MissingRequiredField f (PDict d)], s) \<and>
           process_items ops vid mapping (PDict d # rest) (n, errs, s) =
             process_items ops vid mapping rest
               (n, errs @ [MissingRequiredField f (PDict d)], s)"
proof -
  obtain pd where pd: "apply_mapping mapping (PDict d) [] = Inr pd"
    using apply_mapping_dict_ex by blast
  from assms have "map_of pd ''sku'' = None \<or> map_of pd ''name'' = None"
    using apply_mapping_untouched [OF pd] by fastforce
  then consider "missing_required pd ''sku''"
    | "\<not> missing_required pd ''sku''" "map_of pd ''name'' = None"
    by (cases "missing_required pd ''sku''") (auto simp: missing_required_def)
  then show ?thesis
  proof cases
    case 1
    from process_item_missing(1) [OF pd 1]
    have "process_item ops vid mapping (PDict d) (n, errs, s) =
            (n, errs @ [MissingRequiredField ''sku'' (PDict d)], s)" .
    then show ?thesis by (intro exI [of _ "''sku''"]) simp
  next
    case 2
    from process_item_missing(2) [OF pd 2]
    have "process_item ops vid mapping (PDict d) (n, errs, s) =
            (n, errs @ [MissingRequiredField ''name'' (PDict d)], s)" .
    then show ?thesis by (intro exI [of _ "''name''"]) simp
  qed
qed

theorem missing_required_field_rejected_witness:
  "\<exists>f. (f = ''sku'' \<or> f = ''name'') \<and>
      process_item catalog_ops 3 default_mapping
        (PDict [(''sku'', PStr []), (''name'', PStr ''Widget'')])
        (0, [], \<lparr>cat_vendors = [], cat_products = []\<rparr>) =
        (0, [] @ [MissingRequiredField f (PDict [(''sku'', PStr []), (''name'', PStr ''Widget'')])],
         \<lparr>cat_vendors = [], cat_products = []\<rparr>) \<and>
      process_items catalog_ops 3 default_mapping
        [PDict [(''sku'', PStr []), (''name'', PStr ''Widget'')],
         PDict [(''sku'', PStr ''B2''), (''name'', PStr ''Gadget'')]]
        (0, [], \<lparr>cat_vendors = [], cat_products = []\<rparr>) =
      process_items catalog_ops 3 default_mapping
        [PDict [(''sku'', PStr ''B2''), (''name'', PStr ''Gadget'')]]
        (0, [] @ [MissingRequiredField f (PDict [(''sku'', PStr []), (''name'', PStr ''Widget'')])],
         \<lparr>cat_vendors = [], cat_products = []\<rparr>)"
proof -
  have h: "(\<forall>a\<in>set (aliases_of default_mapping ''sku'').
              \<not> has_value [(''sku'', PStr []), (''name'', PStr ''Widget'')] a) \<or>
           (\<forall>a\<in>set (aliases_of default_mapping ''name'').
              \<not> has_value [(''sku'', PStr []), (''name'', PStr ''Widget'')] a)"
    by (simp add: aliases_of_def default_mapping_def has_value_def)
  show ?thesis by (rule missing_required_field_rejected [OF h])
qed

text \<open>
  Claim C5. For a destination field of the mapping, the canonical value is the record's
  value under the first alias, in the configured order, that is present with a
  non-empty value: the aliases after it, and the record's values under them, play no
  part. Under the default mapping, a record with non-empty \<open>sku\<close> and \<open>product_id\<close>
  gets its \<open>sku\<close> value as canonical sku.
\<close>

theorem first_alias_wins:
  "(distinct (map fst mapping) \<and> (target, before @ a # after) \<in> set mapping \<and>
    (\<forall>b\<in>set before. \<not> has_value d b) \<and> map_of d a = Some v \<and> truthy v
      \<longrightarrow> (\<exists>pd. apply_mapping mapping (PDict d) [] = Inr pd \<and> map_of pd target = Some v))
   \<and> (map_of d ''sku'' = Some v \<and> truthy v \<and> map_of d ''product_id'' = Some w \<and> truthy w
      \<longrightarrow> (\<exists>pd. apply_mapping default_mapping (PDict d) [] = Inr pd \<and>
                map_of pd ''sku'' = Some v))"
proof -
  have general: "\<exists>pd. apply_mapping m (PDict d) [] = Inr pd \<and> map_of pd t = Some v"
    if "distinct (map fst m)" "(t, bs @ a # as) \<in> set m" "\<forall>b\<in>set bs. \<not> has_value d b"
       "map_of d a = Some v" "truthy v" for m t bs a as
  proof -
    obtain pd where pd: "apply_mapping m (PDict d) [] = Inr pd"
      using apply_mapping_dict_ex by blast
    from that have "find (has_value d) (bs @ a # as) = Some a"
      by (intro find_first_match) (simp_all add: has_value_def)
    with apply_mapping_target [OF that(1,2) pd] that(4) have "map_of pd t = Some v" by simp
    with pd show ?thesis by blast
  qed
  have "distinct (map fst default_mapping)"
    by (simp add: default_mapping_def)
  moreover have "(''sku'', [] @ ''sku'' # [''product_id'', ''item_number'', ''part_number'', ''id''])
                   \<in> set default_mapping"
    by (simp add: default_mapping_def)
  ultimately have "\<exists>pd. apply_mapping default_mapping (PDict d) [] = Inr pd \<and>
                        map_of pd ''sku'' = Some v"
    if "map_of d ''sku'' = Some v" "truthy v"
    using that
      general [of default_mapping "''sku''" "[]" "''sku''"
                  "[''product_id'', ''item_number'', ''part_number'', ''id'']"]
    by simp
  with general show ?thesis by blast
qed

theorem first_alias_wins_witness:
  "(\<exists>pd. apply_mapping [(''sku'', [''item'', ''sku'', ''id'']), (''name'', [''name''])]
            (PDict [(''item'', PStr []), (''id'', PStr ''X9''), (''sku'', PStr ''A1'')]) [] = Inr pd \<and>
          map_of pd ''sku'' = Some (PStr ''A1''))
   \<and> (\<exists>pd. apply_mapping default_mapping
            (PDict [(''product_id'', PStr ''P7''), (''sku'', PStr ''A1''),
                    (''name'', PStr ''Widget'')]) [] = Inr pd \<and>
          map_of pd ''sku'' = Some (PStr ''A1''))"
  using first_alias_wins
          [of "[(''sku'', [''item'', ''sku'', ''id'']), (''name'', [''name''])]" "''sku''"
              "[''item'']" "''sku''" "[''id'']"
              "[(''item'', PStr []), (''id'', PStr ''X9''), (''sku'', PStr ''A1'')]"
              "PStr ''A1''"]
        first_alias_wins
          [of "[]" "''sku''" "[]" "''sku''" "[]"
              "[(''product_id'', PStr ''P7''), (''sku'', PStr ''A1''), (''name'', PStr ''Widget'')]"
              "PStr ''A1''" "PStr ''P7''"]
  by (simp add: has_value_def)

text \<open>
  Claim C9. The field mapper treats an alias whose value is present but falsy (None, the
  empty string, a numeric zero, False) as if the record did not have the alias: the
  canonical record is the one of the record without that key. When every alias of a
  destination field is absent or falsy, the field is left out of the canonical record.
  So, under the default mapping, a record with a falsy \<open>price\<close> and a non-empty \<open>cost\<close>
  gets the cost as canonical price, and a record whose only sku alias holds 0 is
  rejected for its missing sku.
\<close>

theorem falsy_value_is_absent_value:
  "(\<not> truthy PNone \<and> \<not> truthy (PStr []) \<and> \<not> truthy (PInt 0) \<and>
    \<not> truthy (PFloat (Finite 0)) \<and> \<not> truthy (PBool False))
   \<and> (map_of d a = Some z \<and> \<not> truthy z
        \<longrightarrow> apply_mapping mapping (PDict d) pd0 =
            apply_mapping mapping (PDict (AList.delete a d)) pd0)
   \<and> ((\<forall>b\<in>set (aliases_of mapping target). case map_of d b of None \<Rightarrow> True | Some u \<Rightarrow> \<not> truthy u)
        \<longrightarrow> (\<exists>pd. apply_mapping mapping (PDict d) [] = Inr pd \<and> map_of pd target = None))
   \<and> (map_of d ''price'' = Some z \<and> \<not> truthy z \<and> map_of d ''cost'' = Some c \<and> truthy c
        \<longrightarrow> (\<exists>pd. apply_mapping default_mapping (PDict d) [] = Inr pd \<and>
                  map_of pd ''price'' = Some c))
   \<and> (a \<in> set (aliases_of default_mapping ''sku'') \<and> map_of d a = Some (PInt 0) \<and>
      (\<forall>b\<in>set (aliases_of default_mapping ''sku''). b \<noteq> a \<longrightarrow> map_of d b = None)
        \<longrightarrow> process_item ops vid default_mapping (PDict d) (n, errs, s) =
              (n, errs @ [MissingRequiredField ''sku'' (PDict d)], s))"
proof -
  have omitted: "\<exists>pd. apply_mapping m (PDict d) [] = Inr pd \<and> map_of pd t = None"
    if "\<forall>b\<in>set (aliases_of m t). \<not> has_value d b" for m t
  proof -
    obtain pd where pd: "apply_mapping m (PDict d) [] = Inr pd"
      using apply_mapping_dict_ex by blast
    from apply_mapping_untouched [OF pd that] have "map_of pd t = None" by simp
    with pd show ?thesis by blast
  qed
  have c3: "\<exists>pd. apply_mapping mapping (PDict d) [] = Inr pd \<and> map_of pd target = None"
    if "\<forall>b\<in>set (aliases_of mapping target). case map_of d b of None \<Rightarrow> True | Some u \<Rightarrow> \<not> truthy u"
  proof (rule omitted)
    from that show "\<forall>b\<in>set (aliases_of mapping target). \<not> has_value d b"
      by (auto simp: has_value_def split: option.splits)
  qed
  have c4: "\<exists>pd. apply_mapping default_mapping (PDict d) [] = Inr pd \<and> map_of pd ''price'' = Some c"
    if "map_of d ''price'' = Some z" "\<not> truthy z" "map_of d ''cost'' = Some c" "truthy c"
  proof -
    obtain pd where pd: "apply_mapping default_mapping (PDict d) [] = Inr pd"
      using apply_mapping_dict_ex by blast
    have dist: "distinct (map fst default_mapping)"
      by (simp add: default_mapping_def)
    have mem: "(''price'', [''price'', ''cost'', ''wholesale_price'', ''msrp'']) \<in> set default_mapping"
      by (simp add: default_mapping_def)
    from that have "find (has_value d) [''price'', ''cost'', ''wholesale_price'', ''msrp''] = Some ''cost''"
      by (simp add: has_value_def)
    with apply_mapping_target [OF dist mem pd] that(3) have "map_of pd ''price'' = Some c" by simp
    with pd show ?thesis by blast
  qed
  have c5: "process_item ops vid default_mapping (PDict d) (n, errs, s) =
              (n, errs @ [MissingRequiredField ''sku'' (PDict d)], s)"
    if "a \<in> set (aliases_of default_mapping ''sku'')" "map_of d a = Some (PInt 0)"
       "\<forall>b\<in>set (aliases_of default_mapping ''sku''). b \<noteq> a \<longrightarrow> map_of d b = None"
  proof -
    from that have "\<forall>b\<in>set (aliases_of default_mapping ''sku''). \<not> has_value d b"
      by (auto simp: has_value_def split: option.splits)
    from omitted [OF this] obtain pd
      where pd: "apply_mapping default_mapping (PDict d) [] = Inr pd" "map_of pd ''sku'' = None"
      by blast
    from pd(2) have "missing_required pd ''sku''" by (simp add: missing_required_def)
    from process_item_missing(1) [OF pd(1) this] show ?thesis .
  qed
  have c2: "apply_mapping mapping (PDict d) pd0 = apply_mapping mapping (PDict (AList.delete a d)) pd0"
    if "map_of d a = Some z" "\<not> truthy z"
    using apply_mapping_delete_falsy [OF that] by simp
  show ?thesis
    using c2 c3 c4 c5 by simp
qed

theorem falsy_value_is_absent_value_witness:
  "(apply_mapping default_mapping
     (PDict [(''sku'', PStr ''A1''), (''name'', PStr ''Widget''), (''price'', PInt 0),
             (''cost'', PInt 5)]) [] =
   apply_mapping default_mapping
     (PDict (AList.delete ''price''
        [(''sku'', PStr ''A1''), (''name'', PStr ''Widget''), (''price'', PInt 0),
         (''cost'', PInt 5)])) []
   \<and> (\<exists>pd. apply_mapping default_mapping
             (PDict [(''sku'', PStr ''A1''), (''name'', PStr ''Widget''), (''price'', PInt 0),
                     (''cost'', PInt 5)]) [] = Inr pd \<and>
           map_of pd ''brand'' = None)
   \<and> (\<exists>pd. apply_mapping default_mapping
             (PDict [(''sku'', PStr ''A1''), (''name'', PStr ''Widget''), (''price'', PInt 0),
                     (''cost'', PInt 5)]) [] = Inr pd \<and>
           map_of pd ''price'' = Some (PInt 5)))
   \<and> process_item catalog_ops 3 default_mapping
       (PDict [(''sku'', PInt 0), (''name'', PStr ''Widget'')])
       (0, [], \<lparr>cat_vendors = [], cat_products = []\<rparr>) =
     (0, [] @ [MissingRequiredField ''sku'' (PDict [(''sku'', PInt 0), (''name'', PStr ''Widget'')])],
      \<lparr>cat_vendors = [], cat_products = []\<rparr>)"
proof -
  have first: "apply_mapping default_mapping
     (PDict [(''sku'', PStr ''A1''), (''name'', PStr ''Widget''), (''price'', PInt 0),
             (''cost'', PInt 5)]) [] =
   apply_mapping default_mapping
     (PDict (AList.delete ''price''
        [(''sku'', PStr ''A1''), (''name'', PStr ''Widget''), (''price'', PInt 0),
         (''cost'', PInt 5)])) []
   \<and> (\<exists>pd. apply_mapping default_mapping
             (PDict [(''sku'', PStr ''A1''), (''name'', PStr ''Widget''), (''price'', PInt 0),
                     (''cost'', PInt 5)]) [] = Inr pd \<and>
           map_of pd ''brand'' = None)
   \<and> (\<exists>pd. apply_mapping default_mapping
             (PDict [(''sku'', PStr ''A1''), (''name'', PStr ''Widget''), (''price'', PInt 0),
                     (''cost'', PInt 5)]) [] = Inr pd \<and>
           map_of pd ''price'' = Some (PInt 5))"
    using falsy_value_is_absent_value
            [of "[(''sku'', PStr ''A1''), (''name'', PStr ''Widget''), (''price'', PInt 0),
                  (''cost'', PInt 5)]" "''price''" "PInt 0" default_mapping "[]" "''brand''"
                "PInt 5"]
    by (simp add: aliases_of_def default_mapping_def)
  have second: "process_item catalog_ops 3 default_mapping
       (PDict [(''sku'', PInt 0), (''name'', PStr ''Widget'')])
       (0, [], \<lparr>cat_vendors = [], cat_products = []\<rparr>) =
     (0, [] @ [MissingRequiredField ''sku'' (PDict [(''sku'', PInt 0), (''name'', PStr ''Widget'')])],
      \<lparr>cat_vendors = [], cat_products = []\<rparr>)"
    using falsy_value_is_absent_value
            [of "[(''sku'', PInt 0), (''name'', PStr ''Widget'')]" "''sku''" "PInt 0" default_mapping
                "[]" "''sku''" "PInt 0" catalog_ops 3 0 "[]" "\<lparr>cat_vendors = [], cat_products = []\<rparr>"]
    by (simp add: aliases_of_def default_mapping_def)
  from first second show ?thesis by (rule conjI)
qed

section \<open>The upsert coordinator on the catalog store\<close>

lemma fresh_id_greater: "r \<in> set rows \<Longrightarrow> row_id r < fresh_id rows"
  by (induction rows) (auto simp: fresh_id_def)

lemma find_map_comp: "find P (map f xs) = map_option f (find (\<lambda>x. P (f x)) xs)"
  by (induction xs) simp_all

lemma fresh_id_notin: "fresh_id rows \<notin> row_id ` set rows"
proof
  assume "fresh_id rows \<in> row_id ` set rows"
  then obtain r where "r \<in> set rows" "row_id r = fresh_id rows" by auto
  with fresh_id_greater [of r rows] show False by simp
qed

lemma row_of_canonical:
  "map_of pd ''sku'' = Some sku \<Longrightarrow>
   row_of i (AList.update ''vendor_id'' (PInt vid) pd) =
     Inr \<lparr>row_id = i, row_vendor = vid, row_sku = sku,
          row_fields = AList.update ''vendor_id'' (PInt vid) pd\<rparr>"
  by (simp add: row_of_def update_conv')

lemma process_item_valid:
  assumes "apply_mapping mapping item [] = Inr pd"
    and "\<not> missing_required pd ''sku''" "\<not> missing_required pd ''name''"
    and "map_of pd ''sku'' = Some sku"
  shows "process_item catalog_ops vid mapping item (n, errs, c) =
     (case catalog_get_by_vendor_sku c vid sku of
        Inl e \<Rightarrow> (n, errs @ [ErrorProcessingItem item e], c)
      | Inr (Some existing_product) \<Rightarrow>
          (case catalog_update c (row_id existing_product)
                  (AList.update ''vendor_id'' (PInt vid) pd) of
             Inl e \<Rightarrow> (n, errs @ [ErrorProcessingItem item e], c)
           | Inr c' \<Rightarrow> (n + 1, errs, c'))
      | Inr None \<Rightarrow>
          (case catalog_create c (AList.update ''vendor_id'' (PInt vid) pd) of
             Inl e \<Rightarrow> (n, errs @ [ErrorProcessingItem item e], c)
           | Inr c' \<Rightarrow> (n + 1, errs, c')))"
  using assms
  by (simp add: process_item_def catalog_ops_def update_conv' Let_def
           split: sum.splits option.splits)

lemma catalog_update_existing:
  assumes wf: "catalog_wf c"
    and found: "find (\<lambda>r. row_vendor r = vid \<and> row_sku r = sku) (cat_products c) = Some row"
    and sku: "map_of pd ''sku'' = Some sku"
  defines "pd' \<equiv> AList.update ''vendor_id'' (PInt vid) pd"
  defines "r \<equiv> \<lparr>row_id = row_id row, row_vendor = vid, row_sku = sku, row_fields = pd'\<rparr>"
  shows "\<exists>c'. catalog_update c (row_id row) pd' = Inr c' \<and>
           map row_id (cat_products c') = map row_id (cat_products c) \<and>
           vendor_row_count c' vid = vendor_row_count c vid \<and>
           find (\<lambda>r. row_vendor r = vid \<and> row_sku r = sku) (cat_products c') = Some r"
proof -
  let ?rows = "cat_products c"
  let ?P = "\<lambda>r. row_vendor r = vid \<and> row_sku r = sku"
  let ?f = "\<lambda>r'. if row_id r' = row_id row then r else r'"
  from found have row: "row \<in> set ?rows" "row_vendor row = vid" "row_sku row = sku"
    by (auto simp: find_Some_iff)
  from wf have inj_id: "inj_on row_id (set ?rows)"
    and inj_key: "inj_on (\<lambda>r. (row_vendor r, row_sku r)) (set ?rows)"
    by (simp_all add: catalog_wf_def distinct_map)
  have same: "r' = row" if "r' \<in> set ?rows" "row_vendor r' = vid" "row_sku r' = sku" for r'
    using inj_key that row by (auto dest: inj_onD)
  have no_conflict: "\<not> list_ex (\<lambda>r'. row_id r' \<noteq> row_id row \<and> same_key r r') ?rows"
    using same by (auto simp: list_ex_iff same_key_def r_def)
  have rowof: "row_of (row_id row) pd' = Inr r"
    unfolding pd'_def r_def using sku by (rule row_of_canonical)
  have upd: "catalog_update c (row_id row) pd' = Inr (c\<lparr>cat_products := map ?f ?rows\<rparr>)"
    using no_conflict rowof by (simp add: catalog_update_def)
  have at_row: "r' = row" if "r' \<in> set ?rows" "row_id r' = row_id row" for r'
    using inj_id that row(1) by (auto dest: inj_onD)
  have keep_id: "row_id (?f r') = row_id r'" for r'
    by (simp add: r_def)
  have keep_vendor: "(row_vendor (?f r') = vid) = (row_vendor r' = vid)"
    if "r' \<in> set ?rows" for r'
    using at_row [OF that] row by (cases "row_id r' = row_id row") (simp_all add: r_def)
  have keep_key: "?P (?f r') = ?P r'" if "r' \<in> set ?rows" for r'
    using at_row [OF that] row by (cases "row_id r' = row_id row") (simp_all add: r_def)
  have ids: "map row_id (map ?f ?rows) = map row_id ?rows"
    using keep_id by (simp add: o_def)
  have count: "length (filter (\<lambda>r. row_vendor r = vid) (map ?f ?rows)) =
               length (filter (\<lambda>r. row_vendor r = vid) ?rows)"
  proof -
    have "filter ((\<lambda>r. row_vendor r = vid) \<circ> ?f) ?rows = filter (\<lambda>r. row_vendor r = vid) ?rows"
      by (rule filter_cong [OF refl]) (simp only: o_apply keep_vendor)
    then show ?thesis by (simp add: filter_map)
  qed
  have "find ?P (map ?f ?rows) = map_option ?f (find (\<lambda>x. ?P (?f x)) ?rows)"
    by (rule find_map_comp)
  also have "find (\<lambda>x. ?P (?f x)) ?rows = find ?P ?rows"
    by (rule find_cong [OF refl]) (rule keep_key)
  finally have fnd: "find ?P (map ?f ?rows) = Some r"
    using found by simp
  from upd ids count fnd show ?thesis
    by (simp add: vendor_row_count_def)
qed

lemma catalog_create_new:
  assumes missing: "find (\<lambda>r. row_vendor r = vid \<and> row_sku r = sku) (cat_products c) = None"
    and sku: "map_of pd ''sku'' = Some sku"
  defines "pd' \<equiv> AList.update ''vendor_id'' (PInt vid) pd"
  defines "r \<equiv> \<lparr>row_id = fresh_id (cat_products c), row_vendor = vid, row_sku = sku,
                 row_fields = pd'\<rparr>"
  shows "catalog_create c pd' = Inr (c\<lparr>cat_products := cat_products c @ [r]\<rparr>) \<and>
         row_id r \<notin> set (map row_id (cat_products c)) \<and>
         vendor_row_count (c\<lparr>cat_products := cat_products c @ [r]\<rparr>) vid =
           vendor_row_count c vid + 1"
proof -
  have rowof: "row_of (fresh_id (cat_products c)) pd' = Inr r"
    unfolding pd'_def r_def using sku by (rule row_of_canonical)
  from missing have "\<not> list_ex (same_key r) (cat_products c)"
    by (auto simp: find_None_iff list_ex_iff same_key_def r_def)
  with rowof have "catalog_create c pd' = Inr (c\<lparr>cat_products := cat_products c @ [r]\<rparr>)"
    by (simp add: catalog_create_def)
  moreover have "row_id r \<notin> set (map row_id (cat_products c))"
    using fresh_id_notin [of "cat_products c"] by (simp add: r_def)
  ultimately show ?thesis
    by (simp add: vendor_row_count_def r_def)
qed

text \<open>
  Claim C1. On a well-formed catalog, a record that passes the required-field check is
  upserted on its natural key. If its mapped sku is the vendor_sku of a row of the
  target vendor, the coordinator updates that row: the identities of the rows are what
  they were, the row found under (vendor, sku) afterwards has the identity of the
  existing row and holds the canonical record, and the vendor's row count is unchanged.
  If no row has that (vendor, sku) pair, one row is appended under an identity that no
  row had, and the vendor's row count grows by exactly one.
\<close>

theorem upsert_updates_or_inserts:
  assumes wf: "catalog_wf c"
    and mapped: "apply_mapping mapping item [] = Inr pd"
    and valid: "\<not> missing_required pd ''sku''" "\<not> missing_required pd ''name''"
    and sku: "map_of pd ''sku'' = Some sku"
  shows "(\<forall>row. catalog_get_by_vendor_sku c vid sku = Inr (Some row) \<longrightarrow>
            (\<exists>c' row'.
               process_item catalog_ops vid mapping item (n, errs, c) = (n + 1, errs, c') \<and>
               map row_id (cat_products c') = map row_id (cat_products c) \<and>
               vendor_row_count c' vid = vendor_row_count c vid \<and>
               catalog_get_by_vendor_sku c' vid sku = Inr (Some row') \<and>
               row_id row' = row_id row \<and>
               row_fields row' = AList.update ''vendor_id'' (PInt vid) pd))
       \<and> (catalog_get_by_vendor_sku c vid sku = Inr None \<longrightarrow>
            (\<exists>c' r.
               process_item catalog_ops vid mapping item (n, errs, c) = (n + 1, errs, c') \<and>
               cat_products c' = cat_products c @ [r] \<and>
               row_id r \<notin> set (map row_id (cat_products c)) \<and>
               row_vendor r = vid \<and> row_sku r = sku \<and>
               vendor_row_count c' vid = vendor_row_count c vid + 1))"
proof (intro conjI allI impI)
  fix row
  assume "catalog_get_by_vendor_sku c vid sku = Inr (Some row)"
  then have found: "find (\<lambda>r. row_vendor r = vid \<and> row_sku r = sku) (cat_products c) = Some row"
    by (simp add: catalog_get_by_vendor_sku_def)
  from catalog_update_existing [OF wf found sku]
  obtain c' where c':
    "catalog_update c (row_id row) (AList.update ''vendor_id'' (PInt vid) pd) = Inr c'"
    "map row_id (cat_products c') = map row_id (cat_products c)"
    "vendor_row_count c' vid = vendor_row_count c vid"
    "find (\<lambda>r. row_vendor r = vid \<and> row_sku r = sku) (cat_products c') =
       Some \<lparr>row_id = row_id row, row_vendor = vid, row_sku = sku,
             row_fields = AList.update ''vendor_id'' (PInt vid) pd\<rparr>"
    by blast
  have "process_item catalog_ops vid mapping item (n, errs, c) = (n + 1, errs, c')"
    using process_item_valid [OF mapped valid sku, of vid n errs c] found c'(1)
    by (simp add: catalog_get_by_vendor_sku_def)
  with c'(2,3,4)
  show "\<exists>c' row'.
          process_item catalog_ops vid mapping item (n, errs, c) = (n + 1, errs, c') \<and>
          map row_id (cat_products c') = map row_id (cat_products c) \<and>
          vendor_row_count c' vid = vendor_row_count c vid \<and>
          catalog_get_by_vendor_sku c' vid sku = Inr (Some row') \<and>
          row_id row' = row_id row \<and>
          row_fields row' = AList.update ''vendor_id'' (PInt vid) pd"
    by (simp add: catalog_get_by_vendor_sku_def)
next
  assume "catalog_get_by_vendor_sku c vid sku = Inr None"
  then have missing: "find (\<lambda>r. row_vendor r = vid \<and> row_sku r = sku) (cat_products c) = None"
    by (simp add: catalog_get_by_vendor_sku_def)
  let ?r = "\<lparr>row_id = fresh_id (cat_products c), row_vendor = vid, row_sku = sku,
             row_fields = AList.update ''vendor_id'' (PInt vid) pd\<rparr>"
  let ?c' = "c\<lparr>cat_products := cat_products c @ [?r]\<rparr>"
  note new = catalog_create_new [OF missing sku]
  have "process_item catalog_ops vid mapping item (n, errs, c) = (n + 1, errs, ?c')"
    using process_item_valid [OF mapped valid sku, of vid n errs c] missing new
    by (simp add: catalog_get_by_vendor_sku_def)
  with new
  show "\<exists>c' r.
          process_item catalog_ops vid mapping item (n, errs, c) = (n + 1, errs, c') \<and>
          cat_products c' = cat_products c @ [r] \<and>
          row_id r \<notin> set (map row_id (cat_products c)) \<and>
          row_vendor r = vid \<and> row_sku r = sku \<and>
          vendor_row_count c' vid = vendor_row_count c vid + 1"
    by (intro exI [of _ ?c'] exI [of _ ?r]) simp
qed

theorem upsert_updates_or_inserts_witness:
  "(\<exists>c' row'.
      process_item catalog_ops 3 default_mapping
        (PDict [(''sku'', PStr ''A1''), (''name'', PStr ''Anvil, forged'')])
        (0, [], example_catalog) = (0 + 1, [], c') \<and>
      map row_id (cat_products c') = map row_id (cat_products example_catalog) \<and>
      vendor_row_count c' 3 = vendor_row_count example_catalog 3 \<and>
      catalog_get_by_vendor_sku c' 3 (PStr ''A1'') = Inr (Some row') \<and>
      row_id row' = 1 \<and>
      row_fields row' =
        AList.update ''vendor_id'' (PInt 3)
          [(''sku'', PStr ''A1''), (''name'', PStr ''Anvil, forged'')])
   \<and> (\<exists>c' r.
      process_item catalog_ops 3 default_mapping
        (PDict [(''sku'', PStr ''B2''), (''name'', PStr ''Bellows'')])
        (0, [], example_catalog) = (0 + 1, [], c') \<and>
      cat_products c' = cat_products example_catalog @ [r] \<and>
      row_id r \<notin> set (map row_id (cat_products example_catalog)) \<and>
      row_vendor r = 3 \<and> row_sku r = PStr ''B2'' \<and>
      vendor_row_count c' 3 = vendor_row_count example_catalog 3 + 1)"
proof -
  have wf: "catalog_wf example_catalog"
    by (simp add: catalog_wf_def example_catalog_def)
  have mapped_a: "apply_mapping default_mapping
                    (PDict [(''sku'', PStr ''A1''), (''name'', PStr ''Anvil, forged'')]) [] =
                  Inr [(''sku'', PStr ''A1''), (''name'', PStr ''Anvil, forged'')]"
    by (simp add: default_mapping_def)
  have mapped_b: "apply_mapping default_mapping
                    (PDict [(''sku'', PStr ''B2''), (''name'', PStr ''Bellows'')]) [] =
                  Inr [(''sku'', PStr ''B2''), (''name'', PStr ''Bellows'')]"
    by (simp add: default_mapping_def)
  have found: "catalog_get_by_vendor_sku example_catalog 3 (PStr ''A1'') =
                 Inr (Some \<lparr>row_id = 1, row_vendor = 3, row_sku = PStr ''A1'',
                            row_fields = [(''sku'', PStr ''A1''), (''name'', PStr ''Anvil''),
                                          (''vendor_id'', PInt 3)]\<rparr>)"
    by (simp add: catalog_get_by_vendor_sku_def example_catalog_def)
  have missing: "catalog_get_by_vendor_sku example_catalog 3 (PStr ''B2'') = Inr None"
    by (simp add: catalog_get_by_vendor_sku_def example_catalog_def)
  from upsert_updates_or_inserts
         [OF wf mapped_a, of "PStr ''A1''" 3 0 "[]"] found
  have first: "\<exists>c' row'.
      process_item catalog_ops 3 default_mapping
        (PDict [(''sku'', PStr ''A1''), (''name'', PStr ''Anvil, forged'')])
        (0, [], example_catalog) = (0 + 1, [], c') \<and>
      map row_id (cat_products c') = map row_id (cat_products example_catalog) \<and>
      vendor_row_count c' 3 = vendor_row_count example_catalog 3 \<and>
      catalog_get_by_vendor_sku c' 3 (PStr ''A1'') = Inr (Some row') \<and>
      row_id row' = 1 \<and>
      row_fields row' =
        AList.update ''vendor_id'' (PInt 3)
          [(''sku'', PStr ''A1''), (''name'', PStr ''Anvil, forged'')]"
    by (simp add: missing_required_def)
  from upsert_updates_or_inserts
         [OF wf mapped_b, of "PStr ''B2''" 3 0 "[]"] missing
  have second: "\<exists>c' r.
      process_item catalog_ops 3 default_mapping
        (PDict [(''sku'', PStr ''B2''), (''name'', PStr ''Bellows'')])
        (0, [], example_catalog) = (0 + 1, [], c') \<and>
      cat_products c' = cat_products example_catalog @ [r] \<and>
      row_id r \<notin> set (map row_id (cat_products example_catalog)) \<and>
      row_vendor r = 3 \<and> row_sku r = PStr ''B2'' \<and>
      vendor_row_count c' 3 = vendor_row_count example_catalog 3 + 1"
    by (simp add: missing_required_def)
  from first second show ?thesis by (rule conjI)
qed

section \<open>The result of a batch\<close>

lemma process_item_step:
  fixes s :: "'s"
  shows "\<exists>k new s'. process_item ops vid m item (n, errs, s) = (n + k, errs @ new, s') \<and>
               k + length new = 1"
proof -
  define P where
    "P = (\<lambda>r :: nat \<times> import_error list \<times> 's. \<exists>k new s'. r = (n + k, errs @ new, s') \<and> k + length new = (1::nat))"
  have err: "P (n, errs @ [e], s)" for e
    unfolding P_def by (intro exI [of _ 0] exI [of _ "[e]"] exI [of _ s]) simp
  have ok: "P (Suc n, errs, t)" for t
    unfolding P_def by (intro exI [of _ 1] exI [of _ "[]"] exI [of _ t]) simp
  have "P (process_item ops vid m item (n, errs, s))"
    unfolding process_item_def
    by (simp add: err ok Let_def split: sum.split option.split)
  then show ?thesis by (simp add: P_def)
qed

lemma process_items_steps:
  "\<exists>k new s'. process_items ops vid m items (n, errs, s) = (n + k, errs @ new, s') \<and>
               k + length new = length items"
proof (induction items arbitrary: n errs s)
  case Nil
  show ?case by (intro exI [of _ 0] exI [of _ "[]"]) simp
next
  case (Cons item items)
  obtain k1 new1 s1 where
    one: "process_item ops vid m item (n, errs, s) = (n + k1, errs @ new1, s1)"
         "k1 + length new1 = 1"
    using process_item_step [of ops vid m item n errs s] by blast
  obtain k2 new2 s2 where
    rest: "process_items ops vid m items (n + k1, errs @ new1, s1) =
             (n + k1 + k2, (errs @ new1) @ new2, s2)"
          "k2 + length new2 = length items"
    using Cons.IH [of "n + k1" "errs @ new1" s1] by blast
  show ?case
    using one rest
    by (intro exI [of _ "k1 + k2"] exI [of _ "new1 @ new2"] exI [of _ s2]) simp
qed

lemma five_records_result:
  "process_mapped_data catalog_ops (PList five_records) 3 None example_catalog =
     (Inr (4, [MissingRequiredField ''name''
                 (PDict [(''sku'', PStr ''S3''), (''price'', PStr ''3.00'')])]),
      \<lparr>cat_vendors = [example_vendor],
       cat_products =
         [\<lparr>row_id = 1, row_vendor = 3, row_sku = PStr ''A1'',
           row_fields = [(''sku'', PStr ''A1''), (''name'', PStr ''Anvil''),
                         (''vendor_id'', PInt 3)]\<rparr>,
          \<lparr>row_id = 2, row_vendor = 3, row_sku = PStr ''S1'',
           row_fields = [(''sku'', PStr ''S1''), (''name'', PStr ''One''),
                         (''price'', PStr ''1.00''), (''vendor_id'', PInt 3)]\<rparr>,
          \<lparr>row_id = 3, row_vendor = 3, row_sku = PStr ''S2'',
           row_fields = [(''sku'', PStr ''S2''), (''name'', PStr ''Two''),
                         (''price'', PStr ''2.00''), (''vendor_id'', PInt 3)]\<rparr>,
          \<lparr>row_id = 4, row_vendor = 3, row_sku = PStr ''S4'',
           row_fields = [(''sku'', PStr ''S4''), (''name'', PStr ''Four''),
                         (''price'', PStr ''4.00''), (''vendor_id'', PInt 3)]\<rparr>,
          \<lparr>row_id = 5, row_vendor = 3, row_sku = PStr ''S5'',
           row_fields = [(''sku'', PStr ''S5''), (''name'', PStr ''Five''),
                         (''price'', PStr ''5.00''), (''vendor_id'', PInt 3)]\<rparr>]\<rparr>)"
  by (simp add: process_mapped_data_def process_item_def missing_required_def
        default_mapping_def catalog_ops_def catalog_get_by_id_def
        catalog_get_by_vendor_sku_def catalog_create_def
        catalog_update_def row_of_def same_key_def fresh_id_def
        example_vendor_def example_catalog_def five_records_def)


lemma csv_import_result:
  "import_from_file example_file_env catalog_ops ''products.csv'' 3 None example_catalog =
     (Inr (3, []),
      \<lparr>cat_vendors = [example_vendor],
       cat_products =
         [\<lparr>row_id = 1, row_vendor = 3, row_sku = PStr ''A1'',
           row_fields = [(''sku'', PStr ''A1''), (''name'', PStr ''Anvil''),
                         (''vendor_id'', PInt 3)]\<rparr>,
          \<lparr>row_id = 2, row_vendor = 3, row_sku = PStr ''C1'',
           row_fields = [(''sku'', PStr ''C1''), (''name'', PStr ''Chisel''),
                         (''price'', PStr ''7.50''), (''vendor_id'', PInt 3)]\<rparr>,
          \<lparr>row_id = 3, row_vendor = 3, row_sku = PStr ''C2'',
           row_fields = [(''sku'', PStr ''C2''), (''name'', PStr ''Clamp''),
                         (''price'', PStr ''3.25''), (''vendor_id'', PInt 3)]\<rparr>,
          \<lparr>row_id = 4, row_vendor = 3, row_sku = PStr ''C3'',
           row_fields = [(''sku'', PStr ''C3''), (''name'', PStr ''Crowbar''),
                         (''price'', PStr ''12.00''), (''vendor_id'', PInt 3)]\<rparr>]\<rparr>)"
  by (simp add: import_from_file_def import_from_csv_def try_except_def splitext_ext_def
        py_lower_def lower_char_def
        process_mapped_data_def process_item_def missing_required_def
        default_mapping_def catalog_ops_def catalog_get_by_id_def
        catalog_get_by_vendor_sku_def catalog_create_def
        catalog_update_def row_of_def same_key_def fresh_id_def
        example_vendor_def example_catalog_def example_csv_rows_def example_file_env_def)

text \<open>
  Claim C3. The per-record import returns the pair of the number of records written and
  the list of errors, in the order of the records: once the vendor is found, every
  record of the batch adds one to the count or one error to the end of the list, and
  none stops the loop. A batch of five records of which only the third lacks \<open>name\<close>
  returns 4 and the one error that echoes the third record; a CSV of three clean rows
  with the columns sku, name and price, none of them in the store, returns 3 and no
  error, and the vendor has three rows more.
\<close>

theorem per_record_import_result:
  "(vendor_get_by_id ops s vid = Inr (Some v)
      \<longrightarrow> (\<exists>n errs s'. process_mapped_data ops (PList items) vid mapping s = (Inr (n, errs), s') \<and>
                       n + length errs = length items))
   \<and> (\<exists>k new s'. process_items ops vid m items (n0, errs0, s) = (n0 + k, errs0 @ new, s') \<and>
                  k + length new = length items)
   \<and> fst (process_mapped_data catalog_ops (PList five_records) 3 None example_catalog) =
       Inr (4, [MissingRequiredField ''name''
                  (PDict [(''sku'', PStr ''S3''), (''price'', PStr ''3.00'')])])
   \<and> five_records ! 2 = PDict [(''sku'', PStr ''S3''), (''price'', PStr ''3.00'')]
   \<and> fst (import_from_file example_file_env catalog_ops ''products.csv'' 3 None example_catalog) =
       Inr (3, [])
   \<and> vendor_row_count
        (snd (import_from_file example_file_env catalog_ops ''products.csv'' 3 None
                example_catalog)) 3 =
       vendor_row_count example_catalog 3 + 3"
proof -
  have general: "\<exists>n errs s'. process_mapped_data ops (PList items) vid mapping s = (Inr (n, errs), s') \<and>
                       n + length errs = length items"
    if found: "vendor_get_by_id ops s vid = Inr (Some v)"
  proof -
    define m' where "m' = (case mapping of None \<Rightarrow> default_mapping
                           | Some m \<Rightarrow> if m = [] then default_mapping else m)"
    obtain k new s' where
      run: "process_items ops vid m' items (0, [], s) = (0 + k, [] @ new, s')"
           "k + length new = length items"
      using process_items_steps [of ops vid m' items 0 "[]" s] by blast
    from found run(1)
    have "process_mapped_data ops (PList items) vid mapping s = (Inr (k, new), s')"
      by (simp add: process_mapped_data_def m'_def)
    with run(2) show ?thesis by blast
  qed
  have five: "five_records ! 2 = PDict [(''sku'', PStr ''S3''), (''price'', PStr ''3.00'')]"
    by (simp add: five_records_def)
  have count: "vendor_row_count
        (snd (import_from_file example_file_env catalog_ops ''products.csv'' 3 None
                example_catalog)) 3 =
       vendor_row_count example_catalog 3 + 3"
    by (simp add: csv_import_result) (simp add: vendor_row_count_def example_catalog_def)
  show ?thesis
    using general process_items_steps [of ops vid m items n0 errs0 s] five count
    by (simp add: five_records_result csv_import_result)
qed

theorem per_record_import_result_witness:
  "\<exists>n errs s'.
      process_mapped_data catalog_ops (PList five_records) 3 (Some [(''sku'', [''sku'']),
         (''name'', [''name''])]) example_catalog = (Inr (n, errs), s') \<and>
      n + length errs = length five_records"
proof -
  have h: "vendor_get_by_id catalog_ops example_catalog 3 = Inr (Some example_vendor)"
    by (simp add: catalog_ops_def catalog_get_by_id_def example_catalog_def example_vendor_def)
  from per_record_import_result
         [of catalog_ops example_catalog 3 example_vendor five_records
             "Some [(''sku'', [''sku'']), (''name'', [''name''])]"] h
  show ?thesis by simp
qed

section \<open>Source fields outside the mapping\<close>

lemma apply_mapping_keys:
  "apply_mapping m item pd0 = Inr pd \<Longrightarrow> fst ` set pd \<subseteq> fst ` set pd0 \<union> fst ` set m"
proof (induction m arbitrary: pd0)
  case Nil
  then show ?case by simp
next
  case (Cons entry m)
  obtain t sfs where entry: "entry = (t, sfs)" by (cases entry)
  show ?case
  proof (cases "first_alias item sfs")
    case (Inl e)
    with Cons.prems entry show ?thesis by simp
  next
    case (Inr found)
    show ?thesis
    proof (cases found)
      case None
      with Cons.prems entry Inr have "apply_mapping m item pd0 = Inr pd" by simp
      from Cons.IH [OF this] entry show ?thesis by auto
    next
      case (Some v)
      with Cons.prems entry Inr have "apply_mapping m item (AList.update t v pd0) = Inr pd"
        by simp
      from Cons.IH [OF this] entry show ?thesis by (auto simp: dom_update)
    qed
  qed
qed

lemma map_of_filter_key:
  "P k \<Longrightarrow> map_of (filter (\<lambda>kv. P (fst kv)) xs) k = map_of xs k"
  by (induction xs) auto

text \<open>
  Claim C4 says that a source field which the mapping does not name survives into the
  stored record's property bag. On the per-record pipeline it does not: the record
  \<open>{sku: A7, name: Widget, region_qty: 5}\<close> under the default mapping is stored with
  sku, name and vendor_id only.
\<close>

theorem unmapped_field_not_stored_counterexample:
  "apply_mapping default_mapping
     (PDict [(''sku'', PStr ''A7''), (''name'', PStr ''Widget''), (''region_qty'', PStr ''5'')])
     [] = Inr [(''sku'', PStr ''A7''), (''name'', PStr ''Widget'')]
   \<and> process_mapped_data catalog_ops
       (PList [PDict [(''sku'', PStr ''A7''), (''name'', PStr ''Widget''),
                      (''region_qty'', PStr ''5'')]]) 3 None
       \<lparr>cat_vendors = [example_vendor], cat_products = []\<rparr> =
     (Inr (1, []),
      \<lparr>cat_vendors = [example_vendor],
       cat_products =
         [\<lparr>row_id = 1, row_vendor = 3, row_sku = PStr ''A7'',
           row_fields = [(''sku'', PStr ''A7''), (''name'', PStr ''Widget''),
                         (''vendor_id'', PInt 3)]\<rparr>]\<rparr>)
   \<and> map_of [(''sku'', PStr ''A7''), (''name'', PStr ''Widget''), (''vendor_id'', PInt 3)]
        ''region_qty'' \<noteq> Some (PStr ''5'')"
  by (simp add: process_mapped_data_def process_item_def missing_required_def
        default_mapping_def catalog_ops_def catalog_get_by_id_def
        catalog_get_by_vendor_sku_def catalog_create_def
        catalog_update_def row_of_def same_key_def fresh_id_def
        example_vendor_def)

text \<open>
  Claim C4, amended. The canonical record that \<^verbatim>\<open>_process_mapped_data\<close> hands to the
  store holds destination fields of the mapping and \<open>vendor_id\<close>, nothing else: a source
  field whose name is no destination field is dropped. On the bulk path, every key of a
  product outside the fixed column keys is kept, with its value, in the props of the
  row that \<^verbatim>\<open>bulk_insert\<close> writes.
\<close>

theorem unmapped_fields_dropped_per_record_kept_in_bulk:
  "(apply_mapping mapping item [] = Inr pd \<and> k \<notin> fst ` set mapping \<and> k \<noteq> ''vendor_id''
      \<longrightarrow> map_of (AList.update ''vendor_id'' (PInt vid) pd) k = None)
   \<and> (map_of product k = Some v \<and> k \<notin> set bulk_columns
      \<longrightarrow> (\<exists>props. vp_props (bulk_values vid product) = Some props \<and>
                   map_of props k = Some v))"
proof -
  have dropped: "map_of (AList.update ''vendor_id'' (PInt vid) pd) k = None"
    if "apply_mapping mapping item [] = Inr pd" "k \<notin> fst ` set mapping" "k \<noteq> ''vendor_id''"
  proof -
    from apply_mapping_keys [OF that(1)] that(2) have "k \<notin> fst ` set pd" by auto
    then have "map_of pd k = None" by (simp add: map_of_eq_None_iff)
    with that(3) show ?thesis by (simp add: update_conv')
  qed
  have kept: "\<exists>props. vp_props (bulk_values vid product) = Some props \<and> map_of props k = Some v"
    if "map_of product k = Some v" "k \<notin> set bulk_columns"
  proof -
    from that(2) have "\<not> List.member bulk_columns k" by simp
    then have "map_of (bulk_props product) k = map_of product k"
      unfolding bulk_props_def
      using map_of_filter_key [of "\<lambda>x. \<not> List.member bulk_columns x" k product] by simp
    with that(1) have found: "map_of (bulk_props product) k = Some v" by simp
    then have "bulk_props product \<noteq> []" by auto
    with found show ?thesis by (simp add: bulk_values_def)
  qed
  from dropped kept show ?thesis by blast
qed

theorem unmapped_fields_dropped_per_record_kept_in_bulk_witness:
  "map_of (AList.update ''vendor_id'' (PInt 3)
             [(''sku'', PStr ''A7''), (''name'', PStr ''Widget'')]) ''region_qty'' = None
   \<and> (\<exists>props. vp_props (bulk_values 3
                  [(''sku'', PStr ''A7''), (''price'', PStr ''9.99''),
                   (''region_qty'', PStr ''5'')]) = Some props \<and>
              map_of props ''region_qty'' = Some (PStr ''5''))"
proof -
  have mapped: "apply_mapping default_mapping
     (PDict [(''sku'', PStr ''A7''), (''name'', PStr ''Widget''), (''region_qty'', PStr ''5'')])
     [] = Inr [(''sku'', PStr ''A7''), (''name'', PStr ''Widget'')]"
    by (simp add: default_mapping_def)
  have notkey: "''region_qty'' \<notin> fst ` set default_mapping"
    by (simp add: default_mapping_def)
  have notcol: "''region_qty'' \<notin> set bulk_columns"
    by (simp add: bulk_columns_def)
  have present: "map_of [(''sku'', PStr ''A7''), (''price'', PStr ''9.99''),
                         (''region_qty'', PStr ''5'')] ''region_qty'' = Some (PStr ''5'')"
    by simp
  from unmapped_fields_dropped_per_record_kept_in_bulk
         [of default_mapping
             "PDict [(''sku'', PStr ''A7''), (''name'', PStr ''Widget''), (''region_qty'', PStr ''5'')]"
             "[(''sku'', PStr ''A7''), (''name'', PStr ''Widget'')]" "''region_qty''" 3
             "[(''sku'', PStr ''A7''), (''price'', PStr ''9.99''), (''region_qty'', PStr ''5'')]"
             "PStr ''5''"]
       mapped notkey notcol present
  show ?thesis by simp
qed

section \<open>The EDI reader against its specification\<close>

lemma py_split_nonempty: "py_split sep s \<noteq> []"
  by (induction s) (auto split: list.splits)

lemma spec_edi_groups_nonempty: "spec_edi_groups segs \<noteq> []"
  by (induction segs) (auto split: list.splits)

lemma spec_edi_field_lin:
  "is_lin elements \<Longrightarrow> spec_edi_field float product elements = spec_edi_field float [] elements"
  by (simp add: spec_edi_field_def)

text \<open>One turn of the loop, in the vocabulary of the specification.\<close>

lemma edi_segment_step:
  assumes "py_strip segment \<noteq> []"
  shows "edi_segment float (out, cur) segment =
     (if is_lin (py_split CHR ''*'' segment)
      then (out @ filter (\<lambda>p. p \<noteq> []) [cur],
            spec_edi_field float [] (py_split CHR ''*'' segment))
      else (out, spec_edi_field float cur (py_split CHR ''*'' segment)))"
proof (cases "py_split CHR ''*'' segment")
  case Nil
  with py_split_nonempty show ?thesis by blast
next
  case (Cons segment_id rest)
  with assms show ?thesis
    by (auto simp: edi_segment_def is_lin_def spec_edi_field_def Let_def split: option.splits)
qed

lemma edi_loop_groups:
  "(case foldl (edi_segment float) (out, cur) raw of
      (products_data, current_product) \<Rightarrow>
        if current_product \<noteq> [] then products_data @ [current_product] else products_data) =
   (case spec_edi_groups
           (map (py_split CHR ''*'') (filter (\<lambda>seg. py_strip seg \<noteq> []) raw)) of
      g # gs \<Rightarrow>
        out @ filter (\<lambda>p. p \<noteq> [])
                (foldl (spec_edi_field float) cur g # map (foldl (spec_edi_field float) []) gs)
    | [] \<Rightarrow> out)"
proof (induction raw arbitrary: out cur)
  case Nil
  show ?case by simp
next
  case (Cons seg raw)
  let ?rest = "map (py_split CHR ''*'') (filter (\<lambda>seg. py_strip seg \<noteq> []) raw)"
  obtain g gs where groups: "spec_edi_groups ?rest = g # gs"
    using spec_edi_groups_nonempty [of ?rest] by (cases "spec_edi_groups ?rest") auto
  show ?case
  proof (cases "py_strip seg = []")
    case True
    then have "edi_segment float (out, cur) seg = (out, cur)"
      by (simp add: edi_segment_def)
    with True Cons.IH [of out cur] show ?thesis by simp
  next
    case False
    let ?el = "py_split CHR ''*'' seg"
    show ?thesis
    proof (cases "is_lin ?el")
      case True
      with False edi_segment_step [OF False, of float out cur]
      have step: "edi_segment float (out, cur) seg =
                    (out @ filter (\<lambda>p. p \<noteq> []) [cur], spec_edi_field float [] ?el)"
        by simp
      from False True groups
      have "spec_edi_groups (map (py_split CHR ''*'')
              (filter (\<lambda>seg. py_strip seg \<noteq> []) (seg # raw))) = [] # (?el # g) # gs"
        by simp
      with step groups
           Cons.IH [of "out @ filter (\<lambda>p. p \<noteq> []) [cur]" "spec_edi_field float [] ?el"]
      show ?thesis by simp
    next
      case notlin: False
      with False edi_segment_step [OF False, of float out cur]
      have step: "edi_segment float (out, cur) seg = (out, spec_edi_field float cur ?el)"
        by simp
      from False notlin groups
      have "spec_edi_groups (map (py_split CHR ''*'')
              (filter (\<lambda>seg. py_strip seg \<noteq> []) (seg # raw))) = (?el # g) # gs"
        by simp
      with step groups Cons.IH [of out "spec_edi_field float cur ?el"]
      show ?thesis by simp
    qed
  qed
qed

text \<open>
  Claim C7. The EDI reader does what the specification describes: the text is cut at
  \<^verbatim>\<open>~\<close> into segments (those of white space only are skipped) and each segment at
  \<^verbatim>\<open>*\<close> into elements; a LIN segment closes the product that is open, which is
  flushed to the output when it holds at least one field, and starts a new one with the
  sku from position 3 when the segment has one; PID sets the name from position 5; CTP
  sets the price to the number parsed from position 3 and sets nothing when the parse
  fails; the product open at the end of the input is flushed in the same way.
\<close>

theorem edi_reader_groups_by_lin:
  "parse_edi float edi_data = spec_parse_edi float edi_data"
proof -
  let ?segs = "map (py_split CHR ''*'')
                 (filter (\<lambda>seg. py_strip seg \<noteq> []) (py_split CHR ''~'' edi_data))"
  obtain g gs where groups: "spec_edi_groups ?segs = g # gs"
    using spec_edi_groups_nonempty [of ?segs] by (cases "spec_edi_groups ?segs") auto
  from edi_loop_groups [of float "[]" "[]" "py_split CHR ''~'' edi_data"] groups
  show ?thesis
    by (simp add: parse_edi_def spec_parse_edi_def spec_edi_segments_def)
qed

lemma edi_example:
  "parse_edi example_float
     ''LIN*1*VP*SKU1~PID*F****Widget~CTP**UCP*9.99~LIN*2*VP*SKU2~PID*F****Gadget~CTP**UCP*n/a~LIN*3~''
   = [[(''sku'', PStr ''SKU1''), (''name'', PStr ''Widget''), (''price'', PFloat (Finite (999 / 100)))],
      [(''sku'', PStr ''SKU2''), (''name'', PStr ''Gadget'')]]"
  by (simp add: parse_edi_def edi_segment_def py_strip_def is_space_def example_float_def)


theorem edi_reader_groups_by_lin_witness:
  "spec_parse_edi example_float
     ''LIN*1*VP*SKU1~PID*F****Widget~CTP**UCP*9.99~LIN*2*VP*SKU2~PID*F****Gadget~CTP**UCP*n/a~LIN*3~''
   = [[(''sku'', PStr ''SKU1''), (''name'', PStr ''Widget''), (''price'', PFloat (Finite (999 / 100)))],
      [(''sku'', PStr ''SKU2''), (''name'', PStr ''Gadget'')]]"
  using edi_reader_groups_by_lin
          [of example_float
              "''LIN*1*VP*SKU1~PID*F****Widget~CTP**UCP*9.99~LIN*2*VP*SKU2~PID*F****Gadget~CTP**UCP*n/a~LIN*3~''"]
        edi_example
  by simp

section \<open>Temporary files of the SFTP reader\<close>

text \<open>
  Claim C8 says that every temporary file of an SFTP run is removed before the reader
  returns, also when a download fails. The source removes the file only after a
  successful download and import, outside any \<^verbatim>\<open>finally\<close>: when the download of
  a matching file fails, the reader returns the SFTP error and the temporary file that
  \<^verbatim>\<open>open(temp_file, 'wb')\<close> created is still there.
\<close>

theorem sftp_download_failure_leaves_temp_file:
  "import_from_sftp example_ftp_env example_file_env catalog_ops example_sftp_config 3 None
     ([], example_catalog) =
   (Inr (0, [SFTPError (FTPError ''550 Failed to open file.'')]),
    ([''temp_products.csv''], example_catalog))"
  by (simp add: import_from_sftp_def sftp_session_def try_except_def sftp_except_def
        ftplib_all_errors_def example_ftp_env_def example_sftp_config_def matches_pattern_def
        startswith_def endswith_def)

section \<open>Failures of the readers\<close>

lemma csv_except_shape: "\<exists>err. csv_except p e = Inr (0, [err])"
  by (cases e) (simp_all add: csv_except_def)

lemma excel_except_shape: "\<exists>err. excel_except p e = Inr (0, [err])"
  by (cases e) (simp_all add: excel_except_def)

lemma json_except_shape: "\<exists>err. json_except p e = Inr (0, [err])"
  by (cases e) (simp_all add: json_except_def)

lemma xml_except_shape: "\<exists>err. xml_except p e = Inr (0, [err])"
  by (cases e) (simp_all add: xml_except_def)

lemma api_except_shape: "\<exists>err. api_except e = Inr (0, [err])"
  by (cases e) (simp_all add: api_except_def)

lemma sftp_except_shape: "\<exists>err. sftp_except e = Inr (0, [err])"
  by (simp add: sftp_except_def)

text \<open>A handler that answers every exception makes the whole statement return.\<close>

lemma try_except_returns:
  assumes "\<And>e. \<exists>err. handler e = Inr (0, [err])"
  shows "\<exists>n errs. fst (try_except body handler) = Inr (n, errs)"
proof (cases body)
  case (Pair r st)
  show ?thesis
  proof (cases r)
    case (Inl e)
    with Pair assms [of e] show ?thesis by (auto simp: try_except_def)
  next
    case (Inr res)
    with Pair show ?thesis by (cases res) (simp add: try_except_def)
  qed
qed

lemma try_except_raised:
  assumes "\<And>e. \<exists>err. handler e = Inr (0, [err])"
  shows "\<exists>err. try_except (Inl e, st) handler = (Inr (0, [err]), st)"
  using assms [of e] by (auto simp: try_except_def)

lemma process_mapped_data_raise_keeps_store:
  "fst (process_mapped_data ops data vid mapping s) = Inl e \<Longrightarrow>
   process_mapped_data ops data vid mapping s = (Inl e, s)"
  by (auto simp: process_mapped_data_def Let_def split: sum.splits option.splits prod.splits)

lemma import_from_file_cases:
  "import_from_file env ops p vid mapping s = import_from_csv env ops p vid mapping s \<or>
   import_from_file env ops p vid mapping s = import_from_excel env ops p vid mapping s \<or>
   import_from_file env ops p vid mapping s = import_from_json env ops p vid mapping s \<or>
   import_from_file env ops p vid mapping s = import_from_xml env ops p vid mapping s \<or>
   import_from_file env ops p vid mapping s =
     (Inr (0, [UnsupportedFileFormat (py_lower (splitext_ext p))]), s)"
  by (simp add: import_from_file_def Let_def)

lemma import_from_file_returns:
  "\<exists>n errs. fst (import_from_file env ops p vid mapping s) = Inr (n, errs)"
proof -
  have "\<exists>n errs. fst (import_from_csv env ops p vid mapping s) = Inr (n, errs)"
    unfolding import_from_csv_def by (rule try_except_returns) (rule csv_except_shape)
  moreover have "\<exists>n errs. fst (import_from_excel env ops p vid mapping s) = Inr (n, errs)"
    unfolding import_from_excel_def by (rule try_except_returns) (rule excel_except_shape)
  moreover have "\<exists>n errs. fst (import_from_json env ops p vid mapping s) = Inr (n, errs)"
    unfolding import_from_json_def by (rule try_except_returns) (rule json_except_shape)
  moreover have "\<exists>n errs. fst (import_from_xml env ops p vid mapping s) = Inr (n, errs)"
    unfolding import_from_xml_def by (rule try_except_returns) (rule xml_except_shape)
  ultimately show ?thesis
    using import_from_file_cases [of env ops p vid mapping s] by auto
qed

lemma fetch_pages_more_fuel:
  "fetch_pages http cfg auth headers fuel k data all_data = Some r \<Longrightarrow>
   fetch_pages http cfg auth headers (fuel + j) k data all_data = Some r"
proof (induction fuel arbitrary: k data all_data)
  case 0
  then show ?case by simp
next
  case (Suc fuel)
  from Suc.prems show ?case
    by (auto split: sum.splits if_splits intro: Suc.IH)
qed

lemma api_read_more_fuel:
  "api_read http fuel cfg = Some r \<Longrightarrow> api_read http (fuel + j) cfg = Some r"
  by (auto simp: api_read_def Let_def split: sum.splits if_splits intro: fetch_pages_more_fuel)

text \<open>
  Claim C6. No reader lets an exception out: the file reader, the SFTP reader and the
  EDI reader always return a pair, and so does the API reader whenever it returns.
  When the read fails, the result is zero and one error: for an unsupported extension;
  for a file that is missing or that its parser refuses, or an unexpected exception
  while it is processed; for a failed request, at the first page or at a later one (from
  the fuel that reaches it on); for a failed connection or any failure of the SFTP
  session; for an exception under the EDI reader.
\<close>

theorem readers_return_errors_as_data:
  "(\<exists>n errs. fst (import_from_file env ops p vid mapping s) = Inr (n, errs))
   \<and> (py_lower (splitext_ext p) \<notin> set [''.csv'', ''.xlsx'', ''.xls'', ''.json'', ''.xml'']
        \<longrightarrow> import_from_file env ops p vid mapping s =
              (Inr (0, [UnsupportedFileFormat (py_lower (splitext_ext p))]), s))
   \<and> (py_lower (splitext_ext p) = ''.csv'' \<and> csv_read env p = Inl e
        \<longrightarrow> (\<exists>err. import_from_file env ops p vid mapping s = (Inr (0, [err]), s)))
   \<and> (py_lower (splitext_ext p) = ''.csv'' \<and> csv_read env p = Inl (FileNotFoundError msg)
        \<longrightarrow> import_from_file env ops p vid mapping s = (Inr (0, [FileNotFound p]), s))
   \<and> (py_lower (splitext_ext p) \<in> set [''.xlsx'', ''.xls''] \<and> excel_read env p = Inl e
        \<longrightarrow> (\<exists>err. import_from_file env ops p vid mapping s = (Inr (0, [err]), s)))
   \<and> (py_lower (splitext_ext p) = ''.json'' \<and> json_load env p = Inl e
        \<longrightarrow> (\<exists>err. import_from_file env ops p vid mapping s = (Inr (0, [err]), s)))
   \<and> (py_lower (splitext_ext p) = ''.json'' \<and> json_load env p = Inl (JSONDecodeError msg)
        \<longrightarrow> import_from_file env ops p vid mapping s = (Inr (0, [InvalidJSONFormat p]), s))
   \<and> (py_lower (splitext_ext p) = ''.xml'' \<and> xml_parse env p = Inl e
        \<longrightarrow> (\<exists>err. import_from_file env ops p vid mapping s = (Inr (0, [err]), s)))
   \<and> (py_lower (splitext_ext p) = ''.csv'' \<and> csv_read env p = Inr rows \<and>
      fst (process_mapped_data ops (PList (map PDict rows)) vid mapping s) = Inl e
        \<longrightarrow> (\<exists>err. import_from_file env ops p vid mapping s = (Inr (0, [err]), s)))
   \<and> (import_from_api http ops fuel cfg vid mapping s = Some (r, s')
        \<longrightarrow> (\<exists>n errs. r = Inr (n, errs)))
   \<and> (api_read http fuel cfg = Some (Inl e)
        \<longrightarrow> (\<exists>err. \<forall>j. import_from_api http ops (fuel + j) cfg vid mapping s =
                        Some (Inr (0, [err]), s)))
   \<and> ((\<forall>req. http 0 req = Inl e)
        \<longrightarrow> (\<exists>err. \<forall>fuel'. import_from_api http ops fuel' cfg vid mapping s =
                        Some (Inr (0, [err]), s)))
   \<and> (\<exists>n errs. fst (import_from_sftp ftp env ops scfg vid mapping st) = Inr (n, errs))
   \<and> (fst (sftp_session ftp env ops scfg vid mapping st) = Inl e
        \<longrightarrow> (\<exists>err. fst (import_from_sftp ftp env ops scfg vid mapping st) = Inr (0, [err])))
   \<and> (ftp_connect ftp (sftp_host scfg) (sftp_port scfg) = Some e
        \<longrightarrow> (\<exists>err. import_from_sftp ftp env ops scfg vid mapping st = (Inr (0, [err]), st)))
   \<and> (\<exists>n errs. fst (import_from_edi float ops edi_data vid mapping s) = Inr (n, errs))
   \<and> (fst (process_mapped_data ops (PList (map PDict (parse_edi float edi_data))) vid mapping s)
        = Inl e
        \<longrightarrow> import_from_edi float ops edi_data vid mapping s =
              (Inr (0, [ErrorParsingEDI e]), s))"
proof -
  let ?file = "import_from_file env ops p vid mapping s"
  have f1: "\<exists>n errs. fst ?file = Inr (n, errs)"
    by (rule import_from_file_returns)
  have f2: "py_lower (splitext_ext p) \<notin> set [''.csv'', ''.xlsx'', ''.xls'', ''.json'', ''.xml'']
        \<longrightarrow> ?file = (Inr (0, [UnsupportedFileFormat (py_lower (splitext_ext p))]), s)"
    by (simp add: import_from_file_def Let_def)
  have csv: "?file = try_except (Inl x, s) (csv_except p)"
    if "py_lower (splitext_ext p) = ''.csv''" "csv_read env p = Inl x" for x
    using that by (simp add: import_from_file_def import_from_csv_def)
  have f3: "py_lower (splitext_ext p) = ''.csv'' \<and> csv_read env p = Inl e
        \<longrightarrow> (\<exists>err. ?file = (Inr (0, [err]), s))"
    using csv [of e] try_except_raised [of "csv_except p" e s, OF csv_except_shape] by auto
  have f4: "py_lower (splitext_ext p) = ''.csv'' \<and> csv_read env p = Inl (FileNotFoundError msg)
        \<longrightarrow> ?file = (Inr (0, [FileNotFound p]), s)"
    using csv [of "FileNotFoundError msg"] by (auto simp: try_except_def csv_except_def)
  have f5: "py_lower (splitext_ext p) \<in> set [''.xlsx'', ''.xls''] \<and> excel_read env p = Inl e
        \<longrightarrow> (\<exists>err. ?file = (Inr (0, [err]), s))"
  proof (intro impI, elim conjE)
    assume ext: "py_lower (splitext_ext p) \<in> set [''.xlsx'', ''.xls'']"
      and fail: "excel_read env p = Inl e"
    then have "?file = try_except (Inl e, s) (excel_except p)"
      by (auto simp: import_from_file_def import_from_excel_def)
    with try_except_raised [of "excel_except p" e s, OF excel_except_shape]
    show "\<exists>err. ?file = (Inr (0, [err]), s)" by simp
  qed
  have json: "?file = try_except (Inl x, s) (json_except p)"
    if "py_lower (splitext_ext p) = ''.json''" "json_load env p = Inl x" for x
    using that by (simp add: import_from_file_def import_from_json_def)
  have f6: "py_lower (splitext_ext p) = ''.json'' \<and> json_load env p = Inl e
        \<longrightarrow> (\<exists>err. ?file = (Inr (0, [err]), s))"
    using json [of e] try_except_raised [of "json_except p" e s, OF json_except_shape] by auto
  have f7: "py_lower (splitext_ext p) = ''.json'' \<and> json_load env p = Inl (JSONDecodeError msg)
        \<longrightarrow> ?file = (Inr (0, [InvalidJSONFormat p]), s)"
    using json [of "JSONDecodeError msg"] by (auto simp: try_except_def json_except_def)
  have f8: "py_lower (splitext_ext p) = ''.xml'' \<and> xml_parse env p = Inl e
        \<longrightarrow> (\<exists>err. ?file = (Inr (0, [err]), s))"
  proof (intro impI, elim conjE)
    assume ext: "py_lower (splitext_ext p) = ''.xml''" and fail: "xml_parse env p = Inl e"
    then have "?file = try_except (Inl e, s) (xml_except p)"
      by (simp add: import_from_file_def import_from_xml_def)
    with try_except_raised [of "xml_except p" e s, OF xml_except_shape]
    show "\<exists>err. ?file = (Inr (0, [err]), s)" by simp
  qed
  have f9: "py_lower (splitext_ext p) = ''.csv'' \<and> csv_read env p = Inr rows \<and>
      fst (process_mapped_data ops (PList (map PDict rows)) vid mapping s) = Inl e
        \<longrightarrow> (\<exists>err. ?file = (Inr (0, [err]), s))"
  proof (intro impI, elim conjE)
    assume ext: "py_lower (splitext_ext p) = ''.csv''" and rd: "csv_read env p = Inr rows"
      and raised: "fst (process_mapped_data ops (PList (map PDict rows)) vid mapping s) = Inl e"
    from raised have "process_mapped_data ops (PList (map PDict rows)) vid mapping s = (Inl e, s)"
      by (rule process_mapped_data_raise_keeps_store)
    with ext rd have "?file = try_except (Inl e, s) (csv_except p)"
      by (simp add: import_from_file_def import_from_csv_def)
    with try_except_raised [of "csv_except p" e s, OF csv_except_shape]
    show "\<exists>err. ?file = (Inr (0, [err]), s)" by simp
  qed
  have a1: "import_from_api http ops fuel cfg vid mapping s = Some (r, s')
        \<longrightarrow> (\<exists>n errs. r = Inr (n, errs))"
  proof
    assume run: "import_from_api http ops fuel cfg vid mapping s = Some (r, s')"
    have "\<exists>body. try_except body api_except = (r, s')"
    proof (cases "api_read http fuel cfg")
      case None
      with run show ?thesis by (simp add: import_from_api_def)
    next
      case (Some res)
      show ?thesis
      proof (cases res)
        case (Inl x)
        with Some run have "try_except (Inl x, s) api_except = (r, s')"
          by (simp add: import_from_api_def)
        then show ?thesis ..
      next
        case (Inr items)
        with Some run
        have "try_except (process_mapped_data ops (PList items) vid mapping s) api_except = (r, s')"
          by (simp add: import_from_api_def)
        then show ?thesis ..
      qed
    qed
    then obtain body where "try_except body api_except = (r, s')" ..
    then have "r = fst (try_except body api_except)" by simp
    with try_except_returns [of api_except body, OF api_except_shape]
    show "\<exists>n errs. r = Inr (n, errs)" by simp
  qed
  obtain aerr where aerr: "api_except e = Inr (0, [aerr])"
    using api_except_shape by blast
  have a2: "api_read http fuel cfg = Some (Inl e)
        \<longrightarrow> (\<exists>err. \<forall>j. import_from_api http ops (fuel + j) cfg vid mapping s =
                        Some (Inr (0, [err]), s))"
  proof
    assume "api_read http fuel cfg = Some (Inl e)"
    then have "api_read http (fuel + j) cfg = Some (Inl e)" for j
      by (rule api_read_more_fuel)
    then have "\<forall>j. import_from_api http ops (fuel + j) cfg vid mapping s =
                 Some (Inr (0, [aerr]), s)"
      by (simp add: import_from_api_def try_except_def aerr)
    then show "\<exists>err. \<forall>j. import_from_api http ops (fuel + j) cfg vid mapping s =
                 Some (Inr (0, [err]), s)" ..
  qed
  have a3: "(\<forall>req. http 0 req = Inl e)
        \<longrightarrow> (\<exists>err. \<forall>fuel'. import_from_api http ops fuel' cfg vid mapping s =
                        Some (Inr (0, [err]), s))"
  proof
    assume "\<forall>req. http 0 req = Inl e"
    then have "api_read http fuel' cfg = Some (Inl e)" for fuel'
      by (simp add: api_read_def Let_def)
    then have "\<forall>fuel'. import_from_api http ops fuel' cfg vid mapping s =
                 Some (Inr (0, [aerr]), s)"
      by (simp add: import_from_api_def try_except_def aerr)
    then show "\<exists>err. \<forall>fuel'. import_from_api http ops fuel' cfg vid mapping s =
                 Some (Inr (0, [err]), s)" ..
  qed
  let ?session = "sftp_session ftp env ops scfg vid mapping st"
  let ?sftp = "import_from_sftp ftp env ops scfg vid mapping st"
  have s1: "\<exists>n errs. fst ?sftp = Inr (n, errs)"
    unfolding import_from_sftp_def by (rule try_except_returns) (rule sftp_except_shape)
  have s2: "fst ?session = Inl e \<longrightarrow> (\<exists>err. fst ?sftp = Inr (0, [err]))"
  proof
    assume "fst ?session = Inl e"
    then have "?session = (Inl e, snd ?session)" by (metis prod.collapse)
    then have "?sftp = try_except (Inl e, snd ?session) sftp_except"
      by (simp add: import_from_sftp_def)
    with try_except_raised [of sftp_except e "snd ?session", OF sftp_except_shape]
    show "\<exists>err. fst ?sftp = Inr (0, [err])" by auto
  qed
  have s3: "ftp_connect ftp (sftp_host scfg) (sftp_port scfg) = Some e
        \<longrightarrow> (\<exists>err. ?sftp = (Inr (0, [err]), st))"
  proof
    assume "ftp_connect ftp (sftp_host scfg) (sftp_port scfg) = Some e"
    then have "?sftp = try_except (Inl e, st) sftp_except"
      by (simp add: import_from_sftp_def sftp_session_def)
    with try_except_raised [of sftp_except e st, OF sftp_except_shape]
    show "\<exists>err. ?sftp = (Inr (0, [err]), st)" by simp
  qed
  let ?proc = "process_mapped_data ops (PList (map PDict (parse_edi float edi_data))) vid mapping s"
  have e1: "\<exists>n errs. fst (import_from_edi float ops edi_data vid mapping s) = Inr (n, errs)"
  proof (cases ?proc)
    case (Pair res t)
    then show ?thesis
      by (cases res) (auto simp: import_from_edi_def)
  qed
  have e2: "fst ?proc = Inl e
        \<longrightarrow> import_from_edi float ops edi_data vid mapping s = (Inr (0, [ErrorParsingEDI e]), s)"
  proof
    assume "fst ?proc = Inl e"
    then have "?proc = (Inl e, s)" by (rule process_mapped_data_raise_keeps_store)
    then show "import_from_edi float ops edi_data vid mapping s =
                 (Inr (0, [ErrorParsingEDI e]), s)"
      by (simp add: import_from_edi_def)
  qed
  from f1 f2 f3 f4 f5 f6 f7 f8 f9 a1 a2 a3 s1 s2 s3 e1 e2
  show ?thesis by (intro conjI) assumption+
qed

theorem readers_return_errors_as_data_witness:
  "import_from_file example_file_env catalog_ops ''missing.csv'' 3 None example_catalog =
     (Inr (0, [FileNotFound ''missing.csv'']), example_catalog)
   \<and> import_from_file example_file_env catalog_ops ''notes.txt'' 3 None example_catalog =
     (Inr (0, [UnsupportedFileFormat (py_lower (splitext_ext ''notes.txt''))]), example_catalog)
   \<and> (\<exists>err. \<forall>fuel'.
         import_from_api (\<lambda>k req. Inl (RequestException ''timed out'')) catalog_ops fuel'
           example_api_config 3 None example_catalog =
         Some (Inr (0, [err]), example_catalog))
   \<and> (\<exists>err. import_from_sftp example_failing_ftp_env example_file_env catalog_ops
               example_sftp_config 3 None ([], example_catalog) =
             (Inr (0, [err]), ([], example_catalog)))
   \<and> import_from_edi example_float example_failing_ops ''LIN*1*VP*SKU1~'' 3 None example_catalog =
     (Inr (0, [ErrorParsingEDI (OtherException ''database is locked'')]), example_catalog)"
proof -
  note unsupported =
    readers_return_errors_as_data
      [where p = "''notes.txt''" and env = example_file_env and ops = catalog_ops and vid = 3
         and mapping = None and s = example_catalog, THEN conjunct2, THEN conjunct1]
  note missing_file =
    readers_return_errors_as_data
      [where p = "''missing.csv''" and env = example_file_env and ops = catalog_ops and vid = 3
         and mapping = None and s = example_catalog and msg = "''missing.csv''",
       THEN conjunct2, THEN conjunct2, THEN conjunct2, THEN conjunct1]
  note request_failed =
    readers_return_errors_as_data
      [where http = "\<lambda>k req. Inl (RequestException ''timed out'')"
         and e = "RequestException ''timed out''" and ops = catalog_ops and vid = 3
         and mapping = None and s = example_catalog and cfg = example_api_config,
       THEN conjunct2, THEN conjunct2, THEN conjunct2, THEN conjunct2, THEN conjunct2, THEN conjunct2, THEN conjunct2, THEN conjunct2, THEN conjunct2, THEN conjunct2, THEN conjunct2, THEN conjunct1]
  note connect_failed =
    readers_return_errors_as_data
      [where ftp = example_failing_ftp_env and scfg = example_sftp_config
         and e = "OSError ''Connection refused''" and env = example_file_env
         and ops = catalog_ops and vid = 3 and mapping = None and st = "([], example_catalog)",
       THEN conjunct2, THEN conjunct2, THEN conjunct2, THEN conjunct2, THEN conjunct2, THEN conjunct2, THEN conjunct2, THEN conjunct2, THEN conjunct2, THEN conjunct2, THEN conjunct2, THEN conjunct2, THEN conjunct2, THEN conjunct2, THEN conjunct1]
  note edi_raised =
    readers_return_errors_as_data
      [where ops = example_failing_ops and float = example_float
         and edi_data = "''LIN*1*VP*SKU1~''" and vid = 3 and mapping = None
         and s = example_catalog and e = "OtherException ''database is locked''",
       THEN conjunct2, THEN conjunct2, THEN conjunct2, THEN conjunct2, THEN conjunct2, THEN conjunct2, THEN conjunct2, THEN conjunct2, THEN conjunct2, THEN conjunct2, THEN conjunct2, THEN conjunct2, THEN conjunct2, THEN conjunct2, THEN conjunct2, THEN conjunct2]
  have ext_csv: "py_lower (splitext_ext ''missing.csv'') = ''.csv''"
    by (simp add: splitext_ext_def py_lower_def lower_char_def)
  have ext_txt: "py_lower (splitext_ext ''notes.txt'') \<notin>
                   set [''.csv'', ''.xlsx'', ''.xls'', ''.json'', ''.xml'']"
    by (simp add: splitext_ext_def py_lower_def lower_char_def)
  have absent: "csv_read example_file_env ''missing.csv'' = Inl (FileNotFoundError ''missing.csv'')"
    by (simp add: example_file_env_def)
  have w1: "import_from_file example_file_env catalog_ops ''missing.csv'' 3 None example_catalog =
     (Inr (0, [FileNotFound ''missing.csv'']), example_catalog)"
    using missing_file ext_csv absent by blast
  have w2: "import_from_file example_file_env catalog_ops ''notes.txt'' 3 None example_catalog =
     (Inr (0, [UnsupportedFileFormat (py_lower (splitext_ext ''notes.txt''))]), example_catalog)"
    using unsupported ext_txt by blast
  have w3: "\<exists>err. \<forall>fuel'.
         import_from_api (\<lambda>k req. Inl (RequestException ''timed out'')) catalog_ops fuel'
           example_api_config 3 None example_catalog =
         Some (Inr (0, [err]), example_catalog)"
    using request_failed by simp
  have refused: "ftp_connect example_failing_ftp_env (sftp_host example_sftp_config)
                   (sftp_port example_sftp_config) = Some (OSError ''Connection refused'')"
    by (simp add: example_failing_ftp_env_def)
  have w4: "\<exists>err. import_from_sftp example_failing_ftp_env example_file_env catalog_ops
               example_sftp_config 3 None ([], example_catalog) =
             (Inr (0, [err]), ([], example_catalog))"
    using connect_failed refused by blast
  have locked: "fst (process_mapped_data example_failing_ops
                        (PList (map PDict (parse_edi example_float ''LIN*1*VP*SKU1~''))) 3 None
                        example_catalog) = Inl (OtherException ''database is locked'')"
    by (simp add: process_mapped_data_def example_failing_ops_def)
  have w5: "import_from_edi example_float example_failing_ops ''LIN*1*VP*SKU1~'' 3 None
              example_catalog =
            (Inr (0, [ErrorParsingEDI (OtherException ''database is locked'')]), example_catalog)"
    using edi_raised locked by blast
  from w1 w2 w3 w4 w5 show ?thesis by (intro conjI) assumption+
qed

text \<open>
  Where the loop over the files ends without an exception, the temporary files are gone.
\<close>

lemma sftp_files_removes:
  "sftp_files ftp env ops vid mapping files totals (local_files, s) = (Inr res, (local_files', s'))
   \<Longrightarrow> set local_files' = set local_files - set (map (\<lambda>f. ''temp_'' @ f) files)"
proof (induction files arbitrary: totals local_files s)
  case Nil
  then show ?case by simp
next
  case (Cons f fs)
  obtain total_imported all_errors where totals: "totals = (total_imported, all_errors)"
    by (cases totals)
  from Cons.prems totals
  obtain imported errors s1 where
    step: "sftp_files ftp env ops vid mapping fs
             (total_imported + imported, all_errors @ errors)
             (removeAll (''temp_'' @ f) (List.insert (''temp_'' @ f) local_files), s1) =
           (Inr res, (local_files', s'))"
    by (auto simp: Let_def split: option.splits sum.splits prod.splits)
  from Cons.IH [OF step] show ?case by auto
qed

end
